theory Spec2Isabelle
  imports Main
begin

section \<open>JavaScript values read by the client\<close>

text \<open>
  The client reads a handful of fields of JSON bodies and of its own state. A field is
  typed by what the backend contract puts there (a string, a boolean, a structured
  record); a field that is missing, \<^verbatim>\<open>undefined\<close> or \<^verbatim>\<open>null\<close> is \<open>None\<close>.
  JavaScript truthiness on these types: a string is truthy when it is present and not
  empty, a boolean when it is present and true.
\<close>

definition truthy_str :: "string option \<Rightarrow> bool" where
  "truthy_str v = (case v of None \<Rightarrow> False | Some s \<Rightarrow> s \<noteq> [])"

definition truthy_bool :: "bool option \<Rightarrow> bool" where
  "truthy_bool v = (case v of None \<Rightarrow> False | Some b \<Rightarrow> b)"

text \<open>\<^verbatim>\<open>v || d\<close> with a string literal \<open>d\<close> on the right.\<close>

definition or_str :: "string option \<Rightarrow> string \<Rightarrow> string" where
  "or_str v d = (case v of None \<Rightarrow> d | Some s \<Rightarrow> if s = [] then d else s)"

text \<open>\<^verbatim>\<open>s.includes(p)\<close>: \<open>p\<close> occurs in \<open>s\<close> as a contiguous substring.\<close>

fun starts_with :: "string \<Rightarrow> string \<Rightarrow> bool" where
  "starts_with s [] = True"
| "starts_with [] (p # ps) = False"
| "starts_with (c # cs) (p # ps) = (c = p \<and> starts_with cs ps)"

fun str_includes :: "string \<Rightarrow> string \<Rightarrow> bool" where
  "str_includes [] p = (p = [])"
| "str_includes (c # cs) p = (starts_with (c # cs) p \<or> str_includes cs p)"

text \<open>The decimal digits of a number, as a template literal prints \<^verbatim>\<open>response.status\<close>.\<close>

fun string_of_nat :: "nat \<Rightarrow> string" where
  "string_of_nat n =
     (if n < 10 then [char_of (48 + n)]
      else string_of_nat (n div 10) @ [char_of (48 + n mod 10)])"

declare string_of_nat.simps [simp del]

text \<open>An exception object: its \<^verbatim>\<open>name\<close> and its \<^verbatim>\<open>message\<close>.\<close>

record js_error =
  name :: string
  message :: string

text \<open>\<^verbatim>\<open>new Error(m)\<close>.\<close>

definition Error :: "string \<Rightarrow> js_error" where
  "Error m = \<lparr>name = ''Error'', message = m\<rparr>"

text \<open>
  Reading property \<open>p\<close> of \<^verbatim>\<open>null\<close> throws a TypeError. The wording of its message is
  the engine's (V8's is used here).
\<close>

definition null_property_error :: "string \<Rightarrow> js_error" where
  "null_property_error p =
     \<lparr>name = ''TypeError'',
      message = ''Cannot read properties of null (reading '' @ [CHR 0x27] @ p @ [CHR 0x27] @ '')''\<rparr>"

section \<open>Backend bodies\<close>

text \<open>
  A structured record of the backend (product data, ad script) is opaque to the
  workflow: a list of named fields.
\<close>

type_synonym json_record = "(string \<times> string) list"

text \<open>
  The fields the client reads from a JSON object of the backend. \<open>sessionId_json\<close>,
  \<open>error_json\<close> and \<open>status_json\<close> are the properties \<^verbatim>\<open>sessionId\<close>, \<^verbatim>\<open>error\<close> and
  \<^verbatim>\<open>status\<close> of the body (the workflow state has fields of the same names).
\<close>

record api_json =
  success :: "bool option"
  session_id :: "string option"
  sessionId_json :: "string option"
  product_data :: "json_record option"
  ad_script :: "json_record option"
  video_path :: "string option"
  error_json :: "string option"
  status_json :: "string option"

text \<open>The object \<^verbatim>\<open>JSON.parse(errorText)\<close> gives for the body of a failed request.\<close>

record error_body =
  detail :: "string option"
  message_json :: "string option"

text \<open>
  What \<^verbatim>\<open>fetch\<close> resolves to. \<open>body_text\<close> is \<^verbatim>\<open>await response.text()\<close> and
  \<open>json\<close> is \<^verbatim>\<open>await response.json()\<close> (\<open>Inl\<close> when it throws, \<open>Inr None\<close> for the
  body \<^verbatim>\<open>null\<close>); \<open>text_json\<close> is \<^verbatim>\<open>JSON.parse\<close> of the text, \<open>None\<close> when the text is not
  JSON or is \<^verbatim>\<open>null\<close> (both end in the inner \<^verbatim>\<open>catch\<close>); a JSON value that is not an
  object has neither property.
\<close>

record response =
  ok :: bool
  http_status :: nat
  statusText :: string
  content_type :: "string option"
  body_text :: "js_error + string"
  text_json :: "error_body option"
  json :: "js_error + api_json option"

datatype fetch_outcome = Rejected js_error | Responded response

text \<open>What \<^verbatim>\<open>apiRequest\<close> returns: the decoded JSON, or the raw response.\<close>

datatype api_value = Json "api_json option" | Raw response

section \<open>Transport client (config/api.js)\<close>

text \<open>The body of the \<^verbatim>\<open>try\<close> block of \<^verbatim>\<open>apiRequest\<close>, from the outcome of \<^verbatim>\<open>fetch\<close> on.\<close>

definition apiRequest_try :: "fetch_outcome \<Rightarrow> js_error + api_value" where
  "apiRequest_try f =
     (case f of
        Rejected e \<Rightarrow> Inl e
      | Responded r \<Rightarrow>
          if \<not> ok r then
            (case body_text r of
               Inl e \<Rightarrow> Inl e
             | Inr errorText \<Rightarrow>
                 Inl (Error
                   (case text_json r of
                      Some errorJson \<Rightarrow>
                        or_str (detail errorJson)
                          (or_str (message_json errorJson)
                             (''HTTP '' @ string_of_nat (http_status r)))
                    | None \<Rightarrow>
                        or_str (Some errorText)
                          (''HTTP '' @ string_of_nat (http_status r) @ '': '' @ statusText r))))
          else if (case content_type r of
                     None \<Rightarrow> False
                   | Some contentType \<Rightarrow> str_includes contentType ''application/json'')
          then (case json r of Inl e \<Rightarrow> Inl e | Inr jsonData \<Rightarrow> Inr (Json jsonData))
          else Inr (Raw r))"

text \<open>The \<^verbatim>\<open>catch\<close> block of \<^verbatim>\<open>apiRequest\<close>: what it throws for the caught error.\<close>

definition apiRequest_catch :: "js_error \<Rightarrow> js_error" where
  "apiRequest_catch e =
     (if name e = ''TypeError'' \<and> str_includes (message e) ''fetch''
      then Error ''Unable to connect to the backend. Please make sure the server is running on port 8000.''
      else e)"

definition apiRequest :: "fetch_outcome \<Rightarrow> js_error + api_value" where
  "apiRequest f = (case apiRequest_try f of Inl e \<Rightarrow> Inl (apiRequest_catch e) | Inr v \<Rightarrow> Inr v)"

text \<open>
  The three calls of the workflow and the session refresh. Each \<^verbatim>\<open>videoAPI\<close> function
  first builds its request (or throws, before any request, when the session identifier
  is falsy) and then hands the outcome of \<^verbatim>\<open>apiRequest\<close> to its caller.
\<close>

datatype endpoint = SCRAPE | GENERATE_SCRIPT | CREATE_VIDEO | SESSION_DATA string

type_synonym form_data = "(string \<times> string) list"

definition scrapeProduct_form :: "string \<Rightarrow> form_data" where
  "scrapeProduct_form url_arg = [(''url'', url_arg)]"

definition scrapeProduct :: "fetch_outcome \<Rightarrow> js_error + api_value" where
  "scrapeProduct f =
     (case apiRequest f of
        Inl e \<Rightarrow> Inl e
      | Inr (Json None) \<Rightarrow> Inl (Error ''Empty response from scrape endpoint'')
      | Inr (Json (Some result)) \<Rightarrow>
          if \<not> truthy_str (session_id result) \<and> \<not> truthy_str (sessionId_json result)
          then Inl (Error ''Backend did not return a session ID'')
          else if truthy_str (session_id result) \<and> \<not> truthy_str (sessionId_json result)
          then Inr (Json (Some (result\<lparr>sessionId_json := session_id result\<rparr>)))
          else Inr (Json (Some result))
      | Inr (Raw r) \<Rightarrow> Inl (Error ''Backend did not return a session ID''))"

text \<open>\<^verbatim>\<open>generateScript(sessionId, tone = 'exciting')\<close>: the default applies to a missing tone.\<close>

definition generateScript_form :: "string option \<Rightarrow> string option \<Rightarrow> js_error + form_data" where
  "generateScript_form sid tone =
     (if \<not> truthy_str sid then Inl (Error ''Session ID is required for script generation'')
      else Inr [(''session_id'', or_str sid []),
                (''tone'', case tone of None \<Rightarrow> ''exciting'' | Some t \<Rightarrow> t)])"

definition generateScript :: "fetch_outcome \<Rightarrow> js_error + api_value" where
  "generateScript f = apiRequest f"

text \<open>
  The settings value object. A field the caller left out is \<open>None\<close>; the settings form
  always fills all seven.
\<close>

record settings =
  aspectRatio :: "string option"
  template :: "string option"
  voiceTone :: "string option"
  enableKaraoke :: "bool option"
  includeVoiceover :: "bool option"
  includeMusic :: "bool option"
  backgroundMusic :: "string option"

definition createVideo_form :: "string option \<Rightarrow> settings \<Rightarrow> js_error + form_data" where
  "createVideo_form sid s =
     (if \<not> truthy_str sid then Inl (Error ''Session ID is required for video creation'')
      else Inr [(''session_id'', or_str sid []),
                (''aspect_ratio'', or_str (aspectRatio s) ''16:9''),
                (''template'', or_str (template s) ''modern''),
                (''voice_tone'', or_str (voiceTone s) ''professional''),
                (''enable_karaoke'', if truthy_bool (enableKaraoke s) then ''true'' else ''false''),
                (''include_voiceover'', if truthy_bool (includeVoiceover s) then ''true'' else ''false''),
                (''background_music'', or_str (backgroundMusic s) ''corporate''),
                (''include_music'', if truthy_bool (includeMusic s) then ''true'' else ''false'')])"

definition createVideo :: "fetch_outcome \<Rightarrow> js_error + api_value" where
  "createVideo f = apiRequest f"

definition getSessionData :: "fetch_outcome \<Rightarrow> js_error + api_value" where
  "getSessionData f = apiRequest f"

section \<open>Workflow state (components/VideoGenerator.jsx)\<close>

datatype step = Input | Settings | Generating | Results

record generationData =
  sessionId :: "string option"
  productData :: "json_record option"
  adScript :: "json_record option"
  videoPath :: "string option"
  progress :: nat
  status :: "string option"
  error :: "string option"
  currentOperation :: string

text \<open>
  What the component does besides holding state, in the order it does it: every value
  it assigns with \<^verbatim>\<open>setGenerationData\<close>, every toast, every request it sends, every
  timer it starts and every download link it clicks.
\<close>

datatype action =
    SetGenerationData generationData
  | ShowToast string string
  | Fetch endpoint form_data
  | SetTimeout nat
  | LinkClick string string

record component =
  currentStep :: step
  url :: string
  settings :: settings
  generationData :: generationData
  trace :: "action list"

definition initial_component :: component where
  "initial_component =
     \<lparr>currentStep = Input,
      url = [],
      settings = \<lparr>aspectRatio = Some ''16:9'', template = Some ''modern'',
                  voiceTone = Some ''professional'', enableKaraoke = Some True,
                  includeVoiceover = Some True, includeMusic = Some True,
                  backgroundMusic = Some ''corporate''\<rparr>,
      generationData = \<lparr>sessionId = None, productData = None, adScript = None,
                        videoPath = None, progress = 0, status = Some ''idle'',
                        error = None, currentOperation = []\<rparr>,
      trace = []\<rparr>"

definition setCurrentStep :: "step \<Rightarrow> component \<Rightarrow> component" where
  "setCurrentStep s c = c\<lparr>currentStep := s\<rparr>"

definition setUrl :: "string \<Rightarrow> component \<Rightarrow> component" where
  "setUrl u c = c\<lparr>url := u\<rparr>"

definition setSettings :: "settings \<Rightarrow> component \<Rightarrow> component" where
  "setSettings s c = c\<lparr>settings := s\<rparr>"

text \<open>\<^verbatim>\<open>setGenerationData(prev => ...)\<close>: the update is applied to the state of the moment.\<close>

definition setGenerationData :: "(generationData \<Rightarrow> generationData) \<Rightarrow> component \<Rightarrow> component" where
  "setGenerationData upd c =
     c\<lparr>generationData := upd (generationData c),
       trace := trace c @ [SetGenerationData (upd (generationData c))]\<rparr>"

definition showToast :: "string \<Rightarrow> string \<Rightarrow> component \<Rightarrow> component" where
  "showToast msg kind c = c\<lparr>trace := trace c @ [ShowToast msg kind]\<rparr>"

definition fetch :: "endpoint \<Rightarrow> form_data \<Rightarrow> component \<Rightarrow> component" where
  "fetch ep body c = c\<lparr>trace := trace c @ [Fetch ep body]\<rparr>"

definition setTimeout :: "nat \<Rightarrow> component \<Rightarrow> component" where
  "setTimeout ms c = c\<lparr>trace := trace c @ [SetTimeout ms]\<rparr>"

definition linkClick :: "string \<Rightarrow> string \<Rightarrow> component \<Rightarrow> component" where
  "linkClick href download c = c\<lparr>trace := trace c @ [LinkClick href download]\<rparr>"

subsection \<open>handleUrlSubmit\<close>

text \<open>Up to \<^verbatim>\<open>await videoAPI.scrapeProduct(submittedUrl)\<close>.\<close>

definition handleUrlSubmit :: "string \<Rightarrow> component \<Rightarrow> component" where
  "handleUrlSubmit submittedUrl c =
     (let c1 = setUrl submittedUrl c;
          c2 = setGenerationData
                 (\<lambda>prev. \<lparr>sessionId = None, productData = None, adScript = None,
                           videoPath = None, progress = 10, status = Some ''scraping'',
                           error = None, currentOperation = ''Scraping product data...''\<rparr>) c1;
          c3 = setCurrentStep Generating c2
      in fetch SCRAPE (scrapeProduct_form submittedUrl) c3)"

text \<open>The \<^verbatim>\<open>catch\<close> block of \<^verbatim>\<open>handleUrlSubmit\<close>.\<close>

definition handleUrlSubmit_catch :: "js_error \<Rightarrow> component \<Rightarrow> component" where
  "handleUrlSubmit_catch e c =
     (let c1 = setGenerationData
                 (\<lambda>prev. prev\<lparr>status := Some ''error'', error := Some (message e),
                               currentOperation := ''Scraping failed''\<rparr>) c
      in showToast (''Scraping failed: '' @ message e) ''error'' c1)"

text \<open>
  From the moment the awaited call settles: \<open>Inl e\<close> when it threw \<open>e\<close>, \<open>Inr result\<close>
  when it returned. The state it updates is the state of that moment.
\<close>

definition handleUrlSubmit_resume :: "js_error + api_value \<Rightarrow> component \<Rightarrow> component" where
  "handleUrlSubmit_resume settled c =
     (case settled of
        Inl e \<Rightarrow> handleUrlSubmit_catch e c
      | Inr (Json None) \<Rightarrow> handleUrlSubmit_catch (null_property_error ''success'') c
      | Inr (Json (Some result)) \<Rightarrow>
          if truthy_bool (success result) \<and> truthy_str (session_id result) then
            (let c1 = setGenerationData
                        (\<lambda>prev. prev\<lparr>sessionId := session_id result,
                                      productData := product_data result,
                                      status := Some ''scraped'',
                                      progress := 25,
                                      currentOperation := ''Product data scraped successfully!''\<rparr>) c;
                 c2 = setTimeout 1500 c1
             in showToast ''Product data scraped successfully!'' ''success'' c2)
          else handleUrlSubmit_catch
                 (Error (or_str (error_json result)
                           ''Failed to scrape product data - no session ID returned'')) c
      | Inr (Raw r) \<Rightarrow>
          handleUrlSubmit_catch
            (Error ''Failed to scrape product data - no session ID returned'') c)"

text \<open>The timer started on a successful scrape: \<^verbatim>\<open>setCurrentStep('settings')\<close>.\<close>

definition handleUrlSubmit_timer :: "component \<Rightarrow> component" where
  "handleUrlSubmit_timer c = setCurrentStep Settings c"

subsection \<open>handleSettingsConfirm\<close>

text \<open>The outer \<^verbatim>\<open>catch\<close> block of \<^verbatim>\<open>handleSettingsConfirm\<close> (script generation).\<close>

definition handleSettingsConfirm_catch :: "js_error \<Rightarrow> component \<Rightarrow> component" where
  "handleSettingsConfirm_catch e c =
     (let c1 = setGenerationData
                 (\<lambda>prev. prev\<lparr>status := Some ''error'', error := Some (message e),
                               currentOperation := ''Script generation failed''\<rparr>) c
      in showToast (''Script generation failed: '' @ message e) ''error'' c1)"

text \<open>
  Up to \<^verbatim>\<open>await videoAPI.generateScript(...)\<close>. \<^verbatim>\<open>generationData.sessionId\<close> is the
  value the handler closed over, the state of the moment the user confirms.
\<close>

definition handleSettingsConfirm :: "settings \<Rightarrow> component \<Rightarrow> component" where
  "handleSettingsConfirm confirmedSettings c =
     (if \<not> truthy_str (sessionId (generationData c)) then
        (let c1 = setGenerationData
                    (\<lambda>prev. prev\<lparr>status := Some ''error'',
                                  error := Some ''No session ID available. Please try again.'',
                                  currentOperation := ''Session error''\<rparr>) c
         in showToast ''Session error: No session ID available. Please try again.'' ''error'' c1)
      else
        (let c1 = setSettings confirmedSettings c;
             c2 = setCurrentStep Generating c1;
             c3 = setGenerationData
                    (\<lambda>prev. prev\<lparr>status := Some ''generating_script'',
                                  progress := 35,
                                  currentOperation := ''Generating AI script...'',
                                  error := None\<rparr>) c2
         in case generateScript_form (sessionId (generationData c)) (voiceTone confirmedSettings) of
              Inl e \<Rightarrow> handleSettingsConfirm_catch e c3
            | Inr body \<Rightarrow> fetch GENERATE_SCRIPT body c3))"

text \<open>From the moment the script call settles to the start of the one-second timer.\<close>

definition handleSettingsConfirm_resume :: "js_error + api_value \<Rightarrow> component \<Rightarrow> component" where
  "handleSettingsConfirm_resume settled c =
     (case settled of
        Inl e \<Rightarrow> handleSettingsConfirm_catch e c
      | Inr (Json None) \<Rightarrow> handleSettingsConfirm_catch (null_property_error ''success'') c
      | Inr (Json (Some scriptResult)) \<Rightarrow>
          if \<not> truthy_bool (success scriptResult) then
            handleSettingsConfirm_catch
              (Error (or_str (error_json scriptResult) ''Failed to generate script'')) c
          else
            (let c1 = setGenerationData
                        (\<lambda>prev. prev\<lparr>adScript := ad_script scriptResult,
                                      status := Some ''script_generated'',
                                      progress := 50,
                                      currentOperation := ''AI script generated successfully!''\<rparr>) c
             in setTimeout 1000 c1)
      | Inr (Raw r) \<Rightarrow>
          handleSettingsConfirm_catch (Error ''Failed to generate script'') c)"

text \<open>The \<^verbatim>\<open>catch\<close> block inside the timer callback (video creation).\<close>

definition createVideo_catch :: "js_error \<Rightarrow> component \<Rightarrow> component" where
  "createVideo_catch videoError c =
     (let c1 = setGenerationData
                 (\<lambda>prev. prev\<lparr>status := Some ''error'', error := Some (message videoError),
                               currentOperation := ''Video creation failed''\<rparr>) c
      in showToast (''Video creation failed: '' @ message videoError) ''error'' c1)"

text \<open>
  The timer callback up to \<^verbatim>\<open>await videoAPI.createVideo(...)\<close>; \<open>sid\<close> and
  \<open>confirmedSettings\<close> are the values the callback closed over.
\<close>

definition handleSettingsConfirm_timer :: "string option \<Rightarrow> settings \<Rightarrow> component \<Rightarrow> component" where
  "handleSettingsConfirm_timer sid confirmedSettings c =
     (let c1 = setGenerationData
                 (\<lambda>prev. prev\<lparr>status := Some ''creating_video'',
                               progress := 60,
                               currentOperation := ''Creating video with AI...''\<rparr>) c
      in case createVideo_form sid confirmedSettings of
           Inl e \<Rightarrow> createVideo_catch e c1
         | Inr body \<Rightarrow> fetch CREATE_VIDEO body c1)"

text \<open>The timer callback from the moment the video call settles.\<close>

definition handleSettingsConfirm_video :: "js_error + api_value \<Rightarrow> component \<Rightarrow> component" where
  "handleSettingsConfirm_video settled c =
     (case settled of
        Inl e \<Rightarrow> createVideo_catch e c
      | Inr (Json None) \<Rightarrow> createVideo_catch (null_property_error ''success'') c
      | Inr (Json (Some videoResult)) \<Rightarrow>
          if truthy_bool (success videoResult) then
            (let c1 = setGenerationData
                        (\<lambda>prev. prev\<lparr>videoPath := video_path videoResult,
                                      status := Some ''completed'',
                                      progress := 100,
                                      currentOperation := ''Video created successfully!''\<rparr>) c;
                 c2 = setCurrentStep Results c1
             in showToast ''Video generated successfully!'' ''success'' c2)
          else createVideo_catch
                 (Error (or_str (error_json videoResult) ''Failed to create video'')) c
      | Inr (Raw r) \<Rightarrow> createVideo_catch (Error ''Failed to create video'') c)"

subsection \<open>handleReset, handleDownload and the session refresh\<close>

definition handleReset :: "component \<Rightarrow> component" where
  "handleReset c =
     (let c1 = setCurrentStep Input c;
          c2 = setUrl [] c1
      in setGenerationData
           (\<lambda>prev. \<lparr>sessionId = None, productData = None, adScript = None,
                     videoPath = None, progress = 0, status = Some ''idle'',
                     error = None, currentOperation = []\<rparr>) c2)"

text \<open>
  The download is a click on a temporary link, not a request of the transport client.
  The DOM calls of the \<^verbatim>\<open>try\<close> block do not throw, so its \<^verbatim>\<open>catch\<close> (a toast) is
  not a branch here.
\<close>

definition handleDownload :: "component \<Rightarrow> component" where
  "handleDownload c =
     (if \<not> truthy_str (sessionId (generationData c)) then
        showToast ''Download failed: No session ID available'' ''error'' c
      else
        (let sid = or_str (sessionId (generationData c)) [];
             c1 = linkClick (''/api/download/'' @ sid) (''ad_video_'' @ sid @ ''.mp4'') c
         in showToast ''Download started!'' ''success'' c1))"

text \<open>
  The effect that runs when the step or the session identifier changed: in the results
  step, with a session, it asks for the session record.
\<close>

definition refreshSessionData :: "component \<Rightarrow> component" where
  "refreshSessionData c =
     (if currentStep c = Results \<and> truthy_str (sessionId (generationData c))
      then fetch (SESSION_DATA (or_str (sessionId (generationData c)) [])) [] c
      else c)"

text \<open>
  From the moment the session call settles. A failure is only logged to the console.
  Of a raw response the properties read are undefined, but \<^verbatim>\<open>status\<close>, the HTTP status
  (shown here by its digits).
\<close>

definition refreshSessionData_resume :: "js_error + api_value \<Rightarrow> component \<Rightarrow> component" where
  "refreshSessionData_resume settled c =
     (case settled of
        Inl e \<Rightarrow> c
      | Inr (Json None) \<Rightarrow> c
      | Inr (Json (Some sessionData)) \<Rightarrow>
          setGenerationData
            (\<lambda>prev. prev\<lparr>productData := product_data sessionData,
                          adScript := ad_script sessionData,
                          videoPath := video_path sessionData,
                          status := status_json sessionData\<rparr>) c
      | Inr (Raw r) \<Rightarrow>
          setGenerationData
            (\<lambda>prev. prev\<lparr>productData := None, adScript := None, videoPath := None,
                          status := Some (string_of_nat (http_status r))\<rparr>) c)"

subsection \<open>Everything that can happen to the component\<close>

text \<open>
  A user action, a timer that fires, or a call that settles. A continuation carries the
  values its closure holds.
\<close>

datatype event =
    UrlSubmit string
  | ScrapeSettled "js_error + api_value"
  | ScrapeTimer
  | SettingsChange settings
  | Back
  | SettingsConfirm settings
  | ScriptSettled "js_error + api_value"
  | VideoTimer "string option" settings
  | VideoSettled "js_error + api_value"
  | Reset
  | Download
  | Refresh
  | RefreshSettled "js_error + api_value"

fun fire :: "event \<Rightarrow> component \<Rightarrow> component" where
  "fire (UrlSubmit u) c = handleUrlSubmit u c"
| "fire (ScrapeSettled r) c = handleUrlSubmit_resume r c"
| "fire ScrapeTimer c = handleUrlSubmit_timer c"
| "fire (SettingsChange s) c = setSettings s c"
| "fire Back c = setCurrentStep Input c"
| "fire (SettingsConfirm s) c = handleSettingsConfirm s c"
| "fire (ScriptSettled r) c = handleSettingsConfirm_resume r c"
| "fire (VideoTimer sid s) c = handleSettingsConfirm_timer sid s c"
| "fire (VideoSettled r) c = handleSettingsConfirm_video r c"
| "fire Reset c = handleReset c"
| "fire Download c = handleDownload c"
| "fire Refresh c = refreshSessionData c"
| "fire (RefreshSettled r) c = refreshSessionData_resume r c"

section \<open>Runs of the workflow\<close>

text \<open>The tests by which each continuation takes its success branch.\<close>

definition scrape_ok :: "js_error + api_value \<Rightarrow> bool" where
  "scrape_ok settled =
     (case settled of
        Inr (Json (Some result)) \<Rightarrow> truthy_bool (success result) \<and> truthy_str (session_id result)
      | _ \<Rightarrow> False)"

definition script_ok :: "js_error + api_value \<Rightarrow> bool" where
  "script_ok settled =
     (case settled of
        Inr (Json (Some scriptResult)) \<Rightarrow> truthy_bool (success scriptResult)
      | _ \<Rightarrow> False)"

definition video_ok :: "js_error + api_value \<Rightarrow> bool" where
  "video_ok settled =
     (case settled of
        Inr (Json (Some videoResult)) \<Rightarrow> truthy_bool (success videoResult)
      | _ \<Rightarrow> False)"

text \<open>
  One pass through the pipeline from a submitted URL: the scrape, the timer that opens
  the settings step, the confirmation, the script, the timer, the video. \<open>f1\<close>, \<open>f2\<close>
  and \<open>f3\<close> are what \<^verbatim>\<open>fetch\<close> gives for the three requests. After a failed stage
  nothing further happens: the progress view offers only the reset.
\<close>

definition run ::
  "string \<Rightarrow> settings \<Rightarrow> fetch_outcome \<Rightarrow> fetch_outcome \<Rightarrow> fetch_outcome \<Rightarrow> component \<Rightarrow> component"
where
  "run u cs f1 f2 f3 c0 =
     (let c1 = handleUrlSubmit u c0;
          c2 = handleUrlSubmit_resume (scrapeProduct f1) c1
      in if \<not> scrape_ok (scrapeProduct f1) then c2
         else
           (let c3 = handleUrlSubmit_timer c2;
                c4 = handleSettingsConfirm cs c3;
                c5 = handleSettingsConfirm_resume (generateScript f2) c4
            in if \<not> script_ok (generateScript f2) then c5
               else
                 (let c6 = handleSettingsConfirm_timer (sessionId (generationData c3)) cs c5
                  in handleSettingsConfirm_video (createVideo f3) c6)))"

text \<open>The values assigned with \<^verbatim>\<open>setGenerationData\<close>, oldest first.\<close>

fun assigned :: "action list \<Rightarrow> generationData list" where
  "assigned [] = []"
| "assigned (SetGenerationData g # as) = g # assigned as"
| "assigned (a # as) = assigned as"

text \<open>The requests sent, oldest first.\<close>

fun requests :: "action list \<Rightarrow> (endpoint \<times> form_data) list" where
  "requests [] = []"
| "requests (Fetch ep body # as) = (ep, body) # requests as"
| "requests (a # as) = requests as"

text \<open>The progress values assigned in a run that starts with an empty trace.\<close>

definition run_progress ::
  "string \<Rightarrow> settings \<Rightarrow> fetch_outcome \<Rightarrow> fetch_outcome \<Rightarrow> fetch_outcome \<Rightarrow> component \<Rightarrow> nat list"
where
  "run_progress u cs f1 f2 f3 c0 =
     map progress (assigned (trace (run u cs f1 f2 f3 (c0\<lparr>trace := []\<rparr>))))"

text \<open>
  The exceptions of the browser (a rejected \<^verbatim>\<open>fetch\<close>, a body that cannot be read or
  decoded) carry a message.
\<close>

definition browser_ok :: "fetch_outcome \<Rightarrow> bool" where
  "browser_ok f =
     (case f of
        Rejected e \<Rightarrow> message e \<noteq> []
      | Responded r \<Rightarrow>
          (case body_text r of Inl e \<Rightarrow> message e \<noteq> [] | Inr t \<Rightarrow> True) \<and>
          (case json r of Inl e \<Rightarrow> message e \<noteq> [] | Inr v \<Rightarrow> True))"

text \<open>The state shows a failure: status \<^verbatim>\<open>error\<close> and a message that is not empty.\<close>

definition shows_failure :: "component \<Rightarrow> bool" where
  "shows_failure c =
     (status (generationData c) = Some ''error'' \<and>
      (case error (generationData c) of None \<Rightarrow> False | Some m \<Rightarrow> m \<noteq> []))"

section \<open>The settings form and a stub backend\<close>

text \<open>
  The values the settings form offers (components/VideoSettings.jsx): three radio
  groups and selects with closed choices, and three checkboxes.
\<close>

definition legal_settings :: "settings \<Rightarrow> bool" where
  "legal_settings s =
     (aspectRatio s \<in> set [Some ''16:9'', Some ''9:16'', Some ''1:1''] \<and>
      template s \<in> set [Some ''modern'', Some ''classic'', Some ''dynamic'', Some ''minimal''] \<and>
      voiceTone s \<in> set [Some ''professional'', Some ''friendly'', Some ''exciting'',
                           Some ''calm'', Some ''authoritative''] \<and>
      enableKaraoke s \<in> set [Some True, Some False] \<and>
      includeVoiceover s \<in> set [Some True, Some False] \<and>
      includeMusic s \<in> set [Some True, Some False] \<and>
      backgroundMusic s \<in> set [Some ''corporate'', Some ''energetic'', Some ''relaxed'',
                                 Some ''modern''])"

text \<open>
  Modelled from the spec: the backend that receives the create-video payload is not
  part of the sources. The stub reads a boolean from the literal strings "true" and
  "false", as the spec says booleans are transmitted.
\<close>

definition parse_boolean :: "string \<Rightarrow> bool option" where
  "parse_boolean v = (if v = ''true'' then Some True else if v = ''false'' then Some False else None)"

text \<open>
  Modelled from the spec: the stub backend that parses the create-video payload back
  into a settings object, each field from the form field of its name.
\<close>

definition stub_backend_parse :: "form_data \<Rightarrow> settings" where
  "stub_backend_parse body =
     \<lparr>aspectRatio = map_of body ''aspect_ratio'',
      template = map_of body ''template'',
      voiceTone = map_of body ''voice_tone'',
      enableKaraoke = (case map_of body ''enable_karaoke'' of None \<Rightarrow> None | Some v \<Rightarrow> parse_boolean v),
      includeVoiceover = (case map_of body ''include_voiceover'' of None \<Rightarrow> None | Some v \<Rightarrow> parse_boolean v),
      includeMusic = (case map_of body ''include_music'' of None \<Rightarrow> None | Some v \<Rightarrow> parse_boolean v),
      backgroundMusic = map_of body ''background_music''\<rparr>"

section \<open>Example inputs\<close>

text \<open>A JSON object with none of the fields, and a 200 response that carries a JSON body.\<close>

definition empty_json :: api_json where
  "empty_json =
     \<lparr>success = None, session_id = None, sessionId_json = None, product_data = None,
      ad_script = None, video_path = None, error_json = None, status_json = None\<rparr>"

definition json_response :: "api_json \<Rightarrow> fetch_outcome" where
  "json_response body =
     Responded \<lparr>ok = True, http_status = 200, statusText = ''OK'',
                content_type = Some ''application/json'', body_text = Inr [],
                text_json = None, json = Inr (Some body)\<rparr>"

definition example_url :: string where
  "example_url = ''https://example.com/item/123''"

definition example_scrape :: fetch_outcome where
  "example_scrape =
     json_response (empty_json\<lparr>success := Some True, session_id := Some ''abc'',
                                product_data := Some [(''title'', ''Widget'')]\<rparr>)"

definition example_scrape_no_session :: fetch_outcome where
  "example_scrape_no_session = json_response (empty_json\<lparr>success := Some True\<rparr>)"

definition example_script :: fetch_outcome where
  "example_script =
     json_response (empty_json\<lparr>success := Some True,
                                ad_script := Some [(''hook'', ''Meet the Widget'')]\<rparr>)"

definition example_video :: fetch_outcome where
  "example_video =
     json_response (empty_json\<lparr>success := Some True, video_path := Some ''output/abc.mp4''\<rparr>)"

definition example_video_failed :: fetch_outcome where
  "example_video_failed =
     json_response (empty_json\<lparr>success := Some False, error_json := Some ''render failed''\<rparr>)"

text \<open>
  A refused connection rejects \<^verbatim>\<open>fetch\<close> with a TypeError whose message is the
  browser's: "Failed to fetch" in Chromium, "Load failed" in WebKit.
\<close>

definition failed_to_fetch :: fetch_outcome where
  "failed_to_fetch = Rejected \<lparr>name = ''TypeError'', message = ''Failed to fetch''\<rparr>"

definition load_failed :: fetch_outcome where
  "load_failed = Rejected \<lparr>name = ''TypeError'', message = ''Load failed''\<rparr>"

text \<open>
  A failed request: a 503 whose plain-text body happens to be the sentence the client
  uses for a connection that failed.
\<close>

definition unavailable_response :: response where
  "unavailable_response =
     \<lparr>ok = False, http_status = 503, statusText = ''Service Unavailable'',
      content_type = Some ''text/plain'',
      body_text = Inr ''Unable to connect to the backend. Please make sure the server is running on port 8000.'',
      text_json = None,
      json = Inl \<lparr>name = ''SyntaxError'', message = ''Unexpected token U in JSON at position 0''\<rparr>\<rparr>"

text \<open>A settings object with every field left out.\<close>

definition no_settings :: settings where
  "no_settings =
     \<lparr>aspectRatio = None, template = None, voiceTone = None, enableKaraoke = None,
      includeVoiceover = None, includeMusic = None, backgroundMusic = None\<rparr>"

text \<open>A choice the settings form can produce.\<close>

definition example_settings :: settings where
  "example_settings =
     \<lparr>aspectRatio = Some ''9:16'', template = Some ''dynamic'', voiceTone = Some ''exciting'',
      enableKaraoke = Some False, includeVoiceover = Some True, includeMusic = Some False,
      backgroundMusic = Some ''relaxed''\<rparr>"

text \<open>A scrape is in flight when the user resets; then its response arrives.\<close>

definition reset_in_flight :: component where
  "reset_in_flight = handleReset (handleUrlSubmit example_url initial_component)"

definition late_scrape :: component where
  "late_scrape = handleUrlSubmit_resume (scrapeProduct example_scrape) reset_in_flight"

section \<open>Helper facts\<close>

lemmas state_setters = setCurrentStep_def setUrl_def setSettings_def setGenerationData_def
  showToast_def fetch_def setTimeout_def linkClick_def

lemma assigned_append: "assigned (xs @ ys) = assigned xs @ assigned ys"
  by (induction xs rule: assigned.induct) simp_all

lemma requests_append: "requests (xs @ ys) = requests xs @ requests ys"
  by (induction xs rule: requests.induct) simp_all

subsection \<open>Failures carry a message\<close>

lemma or_str_nonempty: "d \<noteq> [] \<Longrightarrow> or_str v d \<noteq> []"
  by (simp add: or_str_def split: option.splits)

lemma Error_message [simp]: "message (Error m) = m" "name (Error m) = ''Error''"
  by (simp_all add: Error_def)

lemma null_property_error_message: "message (null_property_error p) \<noteq> []"
  by (simp add: null_property_error_def)

lemma apiRequest_catch_message: "message e \<noteq> [] \<Longrightarrow> message (apiRequest_catch e) \<noteq> []"
  by (simp add: apiRequest_catch_def)

lemma apiRequest_try_message:
  assumes "browser_ok f" "apiRequest_try f = Inl e"
  shows "message e \<noteq> []"
  using assms
  by (auto simp: browser_ok_def apiRequest_try_def or_str_nonempty
      split: fetch_outcome.splits sum.splits if_splits option.splits)

lemma apiRequest_message:
  assumes "browser_ok f" "apiRequest f = Inl e"
  shows "message e \<noteq> []"
  using assms apiRequest_try_message [OF assms(1)]
  by (auto simp: apiRequest_def apiRequest_catch_message split: sum.splits)

lemma scrapeProduct_message:
  assumes "browser_ok f" "scrapeProduct f = Inl e"
  shows "message e \<noteq> []"
  using assms apiRequest_message [OF assms(1)]
  by (auto simp: scrapeProduct_def split: sum.splits api_value.splits option.splits if_splits)

lemma handleUrlSubmit_catch_frame:
  "status (generationData (handleUrlSubmit_catch e c)) = Some ''error''
   \<and> error (generationData (handleUrlSubmit_catch e c)) = Some (message e)
   \<and> currentStep (handleUrlSubmit_catch e c) = currentStep c
   \<and> progress (generationData (handleUrlSubmit_catch e c)) = progress (generationData c)
   \<and> sessionId (generationData (handleUrlSubmit_catch e c)) = sessionId (generationData c)
   \<and> requests (trace (handleUrlSubmit_catch e c)) = requests (trace c)"
  by (simp add: handleUrlSubmit_catch_def state_setters requests_append)

lemma handleSettingsConfirm_catch_frame:
  "status (generationData (handleSettingsConfirm_catch e c)) = Some ''error''
   \<and> error (generationData (handleSettingsConfirm_catch e c)) = Some (message e)
   \<and> currentStep (handleSettingsConfirm_catch e c) = currentStep c
   \<and> progress (generationData (handleSettingsConfirm_catch e c)) = progress (generationData c)"
  by (simp add: handleSettingsConfirm_catch_def state_setters)

lemma createVideo_catch_frame:
  "status (generationData (createVideo_catch e c)) = Some ''error''
   \<and> error (generationData (createVideo_catch e c)) = Some (message e)
   \<and> currentStep (createVideo_catch e c) = currentStep c
   \<and> progress (generationData (createVideo_catch e c)) = progress (generationData c)"
  by (simp add: createVideo_catch_def state_setters)

lemma scrape_failure:
  assumes "\<not> scrape_ok settled" "\<And>e. settled = Inl e \<Longrightarrow> message e \<noteq> []"
  shows "shows_failure (handleUrlSubmit_resume settled c)
       \<and> currentStep (handleUrlSubmit_resume settled c) = currentStep c"
  using assms
  by (auto simp: scrape_ok_def handleUrlSubmit_resume_def shows_failure_def
      handleUrlSubmit_catch_frame or_str_nonempty null_property_error_message
      split: sum.splits api_value.splits option.splits)

lemma script_failure:
  assumes "\<not> script_ok settled" "\<And>e. settled = Inl e \<Longrightarrow> message e \<noteq> []"
  shows "shows_failure (handleSettingsConfirm_resume settled c)
       \<and> currentStep (handleSettingsConfirm_resume settled c) = currentStep c"
  using assms
  by (auto simp: script_ok_def handleSettingsConfirm_resume_def shows_failure_def
      handleSettingsConfirm_catch_frame or_str_nonempty null_property_error_message
      split: sum.splits api_value.splits option.splits)

lemma video_failure:
  assumes "\<not> video_ok settled" "\<And>e. settled = Inl e \<Longrightarrow> message e \<noteq> []"
  shows "shows_failure (handleSettingsConfirm_video settled c)
       \<and> currentStep (handleSettingsConfirm_video settled c) = currentStep c"
  using assms
  by (auto simp: video_ok_def handleSettingsConfirm_video_def shows_failure_def
      createVideo_catch_frame or_str_nonempty null_property_error_message
      split: sum.splits api_value.splits option.splits)

subsection \<open>The stages of a run\<close>

lemma scrape_okD:
  "scrape_ok settled \<Longrightarrow>
   \<exists>result. settled = Inr (Json (Some result)) \<and> truthy_bool (success result)
            \<and> truthy_str (session_id result)"
  by (auto simp: scrape_ok_def split: sum.splits api_value.splits option.splits)

lemma script_okD:
  "script_ok settled \<Longrightarrow>
   \<exists>result. settled = Inr (Json (Some result)) \<and> truthy_bool (success result)"
  by (auto simp: script_ok_def split: sum.splits api_value.splits option.splits)

lemma video_okD:
  "video_ok settled \<Longrightarrow>
   \<exists>result. settled = Inr (Json (Some result)) \<and> truthy_bool (success result)"
  by (auto simp: video_ok_def split: sum.splits api_value.splits option.splits)

lemma handleUrlSubmit_state:
  "currentStep (handleUrlSubmit u c) = Generating
   \<and> generationData (handleUrlSubmit u c) =
       \<lparr>sessionId = None, productData = None, adScript = None,
        videoPath = None, progress = 10, status = Some ''scraping'',
        error = None, currentOperation = ''Scraping product data...''\<rparr>
   \<and> assigned (trace (handleUrlSubmit u c)) = assigned (trace c) @ [generationData (handleUrlSubmit u c)]"
  by (simp add: handleUrlSubmit_def state_setters assigned_append Let_def)

lemma handleUrlSubmit_resume_ok:
  assumes "truthy_bool (success result)" "truthy_str (session_id result)"
  shows "currentStep (handleUrlSubmit_resume (Inr (Json (Some result))) c) = currentStep c
   \<and> generationData (handleUrlSubmit_resume (Inr (Json (Some result))) c) =
       (generationData c)\<lparr>sessionId := session_id result, productData := product_data result,
          status := Some ''scraped'', progress := 25,
          currentOperation := ''Product data scraped successfully!''\<rparr>
   \<and> assigned (trace (handleUrlSubmit_resume (Inr (Json (Some result))) c)) =
       assigned (trace c) @ [generationData (handleUrlSubmit_resume (Inr (Json (Some result))) c)]"
  using assms by (simp add: handleUrlSubmit_resume_def state_setters assigned_append Let_def)

lemma handleSettingsConfirm_ok:
  assumes "truthy_str (sessionId (generationData c))"
  shows "currentStep (handleSettingsConfirm cs c) = Generating
   \<and> generationData (handleSettingsConfirm cs c) =
       (generationData c)\<lparr>status := Some ''generating_script'', progress := 35,
          currentOperation := ''Generating AI script...'', error := None\<rparr>
   \<and> assigned (trace (handleSettingsConfirm cs c)) =
       assigned (trace c) @ [generationData (handleSettingsConfirm cs c)]"
  using assms
  by (simp add: handleSettingsConfirm_def generateScript_form_def state_setters assigned_append Let_def)

lemma handleSettingsConfirm_resume_ok:
  assumes "truthy_bool (success result)"
  shows "currentStep (handleSettingsConfirm_resume (Inr (Json (Some result))) c) = currentStep c
   \<and> generationData (handleSettingsConfirm_resume (Inr (Json (Some result))) c) =
       (generationData c)\<lparr>adScript := ad_script result, status := Some ''script_generated'',
          progress := 50, currentOperation := ''AI script generated successfully!''\<rparr>
   \<and> assigned (trace (handleSettingsConfirm_resume (Inr (Json (Some result))) c)) =
       assigned (trace c) @ [generationData (handleSettingsConfirm_resume (Inr (Json (Some result))) c)]"
  using assms by (simp add: handleSettingsConfirm_resume_def state_setters assigned_append Let_def)

lemma handleSettingsConfirm_timer_ok:
  assumes "truthy_str sid"
  shows "currentStep (handleSettingsConfirm_timer sid cs c) = currentStep c
   \<and> generationData (handleSettingsConfirm_timer sid cs c) =
       (generationData c)\<lparr>status := Some ''creating_video'', progress := 60,
          currentOperation := ''Creating video with AI...''\<rparr>
   \<and> assigned (trace (handleSettingsConfirm_timer sid cs c)) =
       assigned (trace c) @ [generationData (handleSettingsConfirm_timer sid cs c)]"
  using assms
  by (simp add: handleSettingsConfirm_timer_def createVideo_form_def state_setters assigned_append Let_def)

lemma handleSettingsConfirm_video_ok:
  assumes "truthy_bool (success result)"
  shows "currentStep (handleSettingsConfirm_video (Inr (Json (Some result))) c) = Results
   \<and> generationData (handleSettingsConfirm_video (Inr (Json (Some result))) c) =
       (generationData c)\<lparr>videoPath := video_path result, status := Some ''completed'',
          progress := 100, currentOperation := ''Video created successfully!''\<rparr>
   \<and> assigned (trace (handleSettingsConfirm_video (Inr (Json (Some result))) c)) =
       assigned (trace c) @ [generationData (handleSettingsConfirm_video (Inr (Json (Some result))) c)]"
  using assms by (simp add: handleSettingsConfirm_video_def state_setters assigned_append Let_def)

lemma handleUrlSubmit_timer_frame:
  "generationData (handleUrlSubmit_timer c) = generationData c
   \<and> trace (handleUrlSubmit_timer c) = trace c"
  by (simp add: handleUrlSubmit_timer_def state_setters)

lemma successful_run_trace:
  assumes "scrape_ok (scrapeProduct f1)" "script_ok (generateScript f2)" "video_ok (createVideo f3)"
  shows "map progress (assigned (trace (run u cs f1 f2 f3 c0))) =
           map progress (assigned (trace c0)) @ [10, 25, 35, 50, 60, 100]"
proof -
  obtain r1 where r1: "scrapeProduct f1 = Inr (Json (Some r1))" "truthy_bool (success r1)"
      "truthy_str (session_id r1)"
    using scrape_okD [OF assms(1)] by blast
  obtain r2 where r2: "generateScript f2 = Inr (Json (Some r2))" "truthy_bool (success r2)"
    using script_okD [OF assms(2)] by blast
  obtain r3 where r3: "createVideo f3 = Inr (Json (Some r3))" "truthy_bool (success r3)"
    using video_okD [OF assms(3)] by blast
  define c1 where "c1 = handleUrlSubmit u c0"
  define c2 where "c2 = handleUrlSubmit_resume (Inr (Json (Some r1))) c1"
  define c3 where "c3 = handleUrlSubmit_timer c2"
  define c4 where "c4 = handleSettingsConfirm cs c3"
  define c5 where "c5 = handleSettingsConfirm_resume (Inr (Json (Some r2))) c4"
  define c6 where "c6 = handleSettingsConfirm_timer (sessionId (generationData c3)) cs c5"
  define c7 where "c7 = handleSettingsConfirm_video (Inr (Json (Some r3))) c6"
  have run: "run u cs f1 f2 f3 c0 = c7"
    using assms r1(1) r2(1) r3(1)
    by (simp add: run_def Let_def c1_def c2_def c3_def c4_def c5_def c6_def c7_def)
  note s1 = handleUrlSubmit_state [of u c0, folded c1_def]
  note s2 = handleUrlSubmit_resume_ok [OF r1(2,3), of c1, folded c2_def]
  note s3 = handleUrlSubmit_timer_frame [of c2, folded c3_def]
  have sid: "truthy_str (sessionId (generationData c3))"
    using s2 s3 r1(3) by simp
  note s4 = handleSettingsConfirm_ok [OF sid, of cs, folded c4_def]
  note s5 = handleSettingsConfirm_resume_ok [OF r2(2), of c4, folded c5_def]
  note s6 = handleSettingsConfirm_timer_ok [OF sid, of cs c5, folded c6_def]
  note s7 = handleSettingsConfirm_video_ok [OF r3(2), of c6, folded c7_def]
  show ?thesis
    unfolding run using s1 s2 s3 s4 s5 s6 s7 by simp
qed


lemma progress_zero_only_by_reset:
  assumes "e \<noteq> Reset" "progress (generationData (fire e c)) = 0"
  shows "progress (generationData c) = 0"
proof (cases e)
  case (UrlSubmit u)
  with assms show ?thesis by (simp add: handleUrlSubmit_state)
next
  case (ScrapeSettled r)
  with assms show ?thesis
    by (auto simp: handleUrlSubmit_resume_def handleUrlSubmit_catch_frame state_setters Let_def
        split: sum.splits api_value.splits option.splits if_splits)
next
  case (SettingsConfirm s)
  with assms show ?thesis
    by (auto simp: handleSettingsConfirm_def handleSettingsConfirm_catch_frame state_setters Let_def
        split: sum.splits if_splits)
next
  case (ScriptSettled r)
  with assms show ?thesis
    by (auto simp: handleSettingsConfirm_resume_def handleSettingsConfirm_catch_frame
        state_setters Let_def split: sum.splits api_value.splits option.splits if_splits)
next
  case (VideoTimer sid s)
  with assms show ?thesis
    by (auto simp: handleSettingsConfirm_timer_def createVideo_catch_frame state_setters Let_def
        split: sum.splits)
next
  case (VideoSettled r)
  with assms show ?thesis
    by (auto simp: handleSettingsConfirm_video_def createVideo_catch_frame state_setters Let_def
        split: sum.splits api_value.splits option.splits if_splits)
next
  case Download
  with assms show ?thesis
    by (auto simp: handleDownload_def state_setters Let_def split: if_splits)
next
  case Refresh
  with assms show ?thesis
    by (auto simp: refreshSessionData_def state_setters split: if_splits)
next
  case (RefreshSettled r)
  with assms show ?thesis
    by (auto simp: refreshSessionData_resume_def state_setters
        split: sum.splits api_value.splits option.splits)
qed (use assms in \<open>simp_all add: handleUrlSubmit_timer_def state_setters\<close>)

lemma generateScript_message:
  "browser_ok f \<Longrightarrow> generateScript f = Inl e \<Longrightarrow> message e \<noteq> []"
  by (simp add: generateScript_def apiRequest_message)

lemma createVideo_message:
  "browser_ok f \<Longrightarrow> createVideo f = Inl e \<Longrightarrow> message e \<noteq> []"
  by (simp add: createVideo_def apiRequest_message)

lemma failed_run:
  assumes b: "browser_ok f1" "browser_ok f2" "browser_ok f3"
    and failed: "\<not> (scrape_ok (scrapeProduct f1) \<and> script_ok (generateScript f2)
                     \<and> video_ok (createVideo f3))"
  shows "currentStep (run u cs f1 f2 f3 c0) = Generating \<and> shows_failure (run u cs f1 f2 f3 c0)"
proof (cases "scrape_ok (scrapeProduct f1)")
  case False
  have "run u cs f1 f2 f3 c0 = handleUrlSubmit_resume (scrapeProduct f1) (handleUrlSubmit u c0)"
    using False by (simp add: run_def Let_def)
  then show ?thesis
    using scrape_failure [OF False scrapeProduct_message [OF b(1)], of "handleUrlSubmit u c0"]
      handleUrlSubmit_state [of u c0] by simp
next
  case True
  obtain r1 where r1: "scrapeProduct f1 = Inr (Json (Some r1))" "truthy_bool (success r1)"
      "truthy_str (session_id r1)"
    using scrape_okD [OF True] by blast
  define c3 where "c3 = handleUrlSubmit_timer (handleUrlSubmit_resume (Inr (Json (Some r1))) (handleUrlSubmit u c0))"
  have sid: "truthy_str (sessionId (generationData c3))"
    using handleUrlSubmit_resume_ok [OF r1(2,3), of "handleUrlSubmit u c0"] r1(3)
    by (simp add: c3_def handleUrlSubmit_timer_frame)
  define c4 where "c4 = handleSettingsConfirm cs c3"
  have step4: "currentStep c4 = Generating"
    using handleSettingsConfirm_ok [OF sid, of cs] by (simp add: c4_def)
  show ?thesis
  proof (cases "script_ok (generateScript f2)")
    case False
    have "run u cs f1 f2 f3 c0 = handleSettingsConfirm_resume (generateScript f2) c4"
      using True False r1(1) by (simp add: run_def Let_def c3_def c4_def)
    then show ?thesis
      using script_failure [OF False generateScript_message [OF b(2)], of c4] step4 by simp
  next
    case script: True
    obtain r2 where r2: "generateScript f2 = Inr (Json (Some r2))" "truthy_bool (success r2)"
      using script_okD [OF script] by blast
    define c6 where "c6 = handleSettingsConfirm_timer (sessionId (generationData c3)) cs
                            (handleSettingsConfirm_resume (Inr (Json (Some r2))) c4)"
    have step6: "currentStep c6 = Generating"
      using handleSettingsConfirm_timer_ok [OF sid, of cs "handleSettingsConfirm_resume (Inr (Json (Some r2))) c4"]
        handleSettingsConfirm_resume_ok [OF r2(2), of c4] step4
      by (simp add: c6_def)
    have video: "\<not> video_ok (createVideo f3)"
      using failed True script by simp
    have "run u cs f1 f2 f3 c0 = handleSettingsConfirm_video (createVideo f3) c6"
      using True script r1(1) r2(1) by (simp add: run_def Let_def c3_def c4_def c6_def)
    then show ?thesis
      using video_failure [OF video createVideo_message [OF b(3)], of c6] step6 by simp
  qed
qed

lemma render_failed:
  assumes "success videoResult = Some False" "error_json videoResult = Some ''render failed''"
  shows "status (generationData (handleSettingsConfirm_video (Inr (Json (Some videoResult))) c)) = Some ''error''
       \<and> error (generationData (handleSettingsConfirm_video (Inr (Json (Some videoResult))) c)) = Some ''render failed''
       \<and> currentStep (handleSettingsConfirm_video (Inr (Json (Some videoResult))) c) = currentStep c"
  using assms
  by (simp add: handleSettingsConfirm_video_def createVideo_catch_frame truthy_bool_def or_str_def)

lemma run_progress_successful:
  assumes "scrape_ok (scrapeProduct f1)" "script_ok (generateScript f2)" "video_ok (createVideo f3)"
  shows "run_progress u cs f1 f2 f3 c0 = [10, 25, 35, 50, 60, 100]"
proof -
  have "trace (c0\<lparr>trace := []\<rparr>) = []" by simp
  with successful_run_trace [OF assms, of u cs "c0\<lparr>trace := []\<rparr>"]
  show ?thesis unfolding run_progress_def by simp
qed

lemma checkpoints_sorted: "sorted [10, 25, 35, 50, 60, 100 :: nat]"
  by simp

subsection \<open>The example inputs, settled\<close>

lemma example_scrape_settled:
  "scrapeProduct example_scrape =
     Inr (Json (Some (empty_json\<lparr>success := Some True, session_id := Some ''abc'',
                                  sessionId_json := Some ''abc'',
                                  product_data := Some [(''title'', ''Widget'')]\<rparr>)))"
  by (simp add: example_scrape_def json_response_def scrapeProduct_def apiRequest_def
      apiRequest_try_def empty_json_def truthy_str_def)

lemma example_script_settled:
  "generateScript example_script =
     Inr (Json (Some (empty_json\<lparr>success := Some True,
                                  ad_script := Some [(''hook'', ''Meet the Widget'')]\<rparr>)))"
  by (simp add: example_script_def json_response_def generateScript_def apiRequest_def
      apiRequest_try_def)

lemma example_video_settled:
  "createVideo example_video =
     Inr (Json (Some (empty_json\<lparr>success := Some True, video_path := Some ''output/abc.mp4''\<rparr>)))"
  by (simp add: example_video_def json_response_def createVideo_def apiRequest_def
      apiRequest_try_def)

lemma example_video_failed_settled:
  "createVideo example_video_failed =
     Inr (Json (Some (empty_json\<lparr>success := Some False, error_json := Some ''render failed''\<rparr>)))"
  by (simp add: example_video_failed_def json_response_def createVideo_def apiRequest_def
      apiRequest_try_def)

lemma load_failed_settled:
  "apiRequest load_failed = Inl \<lparr>name = ''TypeError'', message = ''Load failed''\<rparr>"
  by (simp add: load_failed_def apiRequest_def apiRequest_try_def apiRequest_catch_def)

lemma failed_to_fetch_settled:
  "apiRequest failed_to_fetch =
     Inl (Error ''Unable to connect to the backend. Please make sure the server is running on port 8000.'')"
  by (simp add: failed_to_fetch_def apiRequest_def apiRequest_try_def apiRequest_catch_def)

lemma request_failure_is_plain_Error:
  assumes "\<not> ok r" and "body_text r = Inr errorText"
  shows "\<exists>m. apiRequest (Responded r) = Inl \<lparr>name = ''Error'', message = m\<rparr>"
  using assms
  by (simp add: apiRequest_def apiRequest_try_def apiRequest_catch_def Error_def)

lemma unavailable_settled:
  "apiRequest (Responded unavailable_response) =
     Inl \<lparr>name = ''Error'',
          message = ''Unable to connect to the backend. Please make sure the server is running on port 8000.''\<rparr>"
  by (simp add: unavailable_response_def apiRequest_def apiRequest_try_def apiRequest_catch_def
      Error_def or_str_def)

lemma example_browser_ok:
  "browser_ok example_scrape" "browser_ok example_script" "browser_ok example_video_failed"
  "browser_ok load_failed"
  by (simp_all add: browser_ok_def example_scrape_def example_script_def
      example_video_failed_def json_response_def load_failed_def)

subsection \<open>A continuation on any state\<close>

lemma handleReset_data:
  "generationData (handleReset c) =
     \<lparr>sessionId = None, productData = None, adScript = None, videoPath = None,
      progress = 0, status = Some ''idle'', error = None, currentOperation = []\<rparr>"
  by (simp add: handleReset_def state_setters)

lemma late_scrape_status:
  "status (generationData (handleUrlSubmit_resume s1 c)) =
     Some (if scrape_ok s1 then ''scraped'' else ''error'')
   \<and> progress (generationData (handleUrlSubmit_resume s1 c)) =
     (if scrape_ok s1 then 25 else progress (generationData c))"
  by (auto simp: handleUrlSubmit_resume_def scrape_ok_def handleUrlSubmit_catch_frame
      state_setters Let_def split: sum.splits api_value.splits option.splits)

lemma late_script_status:
  "status (generationData (handleSettingsConfirm_resume s2 c)) =
     Some (if script_ok s2 then ''script_generated'' else ''error'')
   \<and> progress (generationData (handleSettingsConfirm_resume s2 c)) =
     (if script_ok s2 then 50 else progress (generationData c))"
  by (auto simp: handleSettingsConfirm_resume_def script_ok_def handleSettingsConfirm_catch_frame
      state_setters Let_def split: sum.splits api_value.splits option.splits)

lemma late_video_status:
  "status (generationData (handleSettingsConfirm_video s3 c)) =
     Some (if video_ok s3 then ''completed'' else ''error'')
   \<and> progress (generationData (handleSettingsConfirm_video s3 c)) =
     (if video_ok s3 then 100 else progress (generationData c))"
  by (auto simp: handleSettingsConfirm_video_def video_ok_def createVideo_catch_frame
      state_setters Let_def split: sum.splits api_value.splits option.splits)

subsection \<open>The create-video payload\<close>

lemma or_str_truthy: "truthy_str v \<Longrightarrow> Some (or_str v d) = v"
  by (auto simp: truthy_str_def or_str_def split: option.splits)

lemma parse_boolean_literal:
  "b \<noteq> None \<Longrightarrow> parse_boolean (if truthy_bool b then ''true'' else ''false'') = b"
  by (auto simp: parse_boolean_def truthy_bool_def)

lemma legal_settings_filled:
  assumes "legal_settings s"
  shows "truthy_str (aspectRatio s)" "truthy_str (template s)" "truthy_str (voiceTone s)"
    "truthy_str (backgroundMusic s)" "enableKaraoke s \<noteq> None" "includeVoiceover s \<noteq> None"
    "includeMusic s \<noteq> None"
proof -
  have "aspectRatio s \<in> set [Some ''16:9'', Some ''9:16'', Some ''1:1'']"
    using assms by (simp add: legal_settings_def)
  then show "truthy_str (aspectRatio s)" by (auto simp: truthy_str_def)
  have "template s \<in> set [Some ''modern'', Some ''classic'', Some ''dynamic'', Some ''minimal'']"
    using assms by (simp add: legal_settings_def)
  then show "truthy_str (template s)" by (auto simp: truthy_str_def)
  have "voiceTone s \<in> set [Some ''professional'', Some ''friendly'', Some ''exciting'',
                           Some ''calm'', Some ''authoritative'']"
    using assms by (simp add: legal_settings_def)
  then show "truthy_str (voiceTone s)" by (auto simp: truthy_str_def)
  have "backgroundMusic s \<in> set [Some ''corporate'', Some ''energetic'', Some ''relaxed'',
                                 Some ''modern'']"
    using assms by (simp add: legal_settings_def)
  then show "truthy_str (backgroundMusic s)" by (auto simp: truthy_str_def)
  have "enableKaraoke s \<in> set [Some True, Some False]"
    using assms by (simp add: legal_settings_def)
  then show "enableKaraoke s \<noteq> None" by auto
  have "includeVoiceover s \<in> set [Some True, Some False]"
    using assms by (simp add: legal_settings_def)
  then show "includeVoiceover s \<noteq> None" by auto
  have "includeMusic s \<in> set [Some True, Some False]"
    using assms by (simp add: legal_settings_def)
  then show "includeMusic s \<noteq> None" by auto
qed

lemma truthy_bool_literal:
  "(if truthy_bool b then ''true'' else ''false'') = (if b = Some True then ''true'' else ''false'')"
  by (auto simp: truthy_bool_def split: option.splits)

lemma example_settings_form:
  "createVideo_form (Some ''abc'') example_settings =
     Inr [(''session_id'', ''abc''), (''aspect_ratio'', ''9:16''), (''template'', ''dynamic''),
          (''voice_tone'', ''exciting''), (''enable_karaoke'', ''false''),
          (''include_voiceover'', ''true''), (''background_music'', ''relaxed''),
          (''include_music'', ''false'')]"
  by (simp add: createVideo_form_def example_settings_def truthy_str_def truthy_bool_def or_str_def)

lemma example_scrape_no_session_settled:
  "apiRequest example_scrape_no_session = Inr (Json (Some (empty_json\<lparr>success := Some True\<rparr>)))"
  by (simp add: example_scrape_no_session_def json_response_def apiRequest_def apiRequest_try_def)

section \<open>Reset\<close>

text \<open>
  Claim C7. From every state of the component, mid-flight and error states included,
  \<^verbatim>\<open>handleReset\<close> gives the state with \<open>sessionId\<close>, \<open>productData\<close>, \<open>adScript\<close>,
  \<open>videoPath\<close> and \<open>error\<close> cleared, \<open>progress = 0\<close>, status \<^verbatim>\<open>idle\<close>, an empty
  \<open>currentOperation\<close> and the step \<open>Input\<close>; it sends no request.
\<close>

theorem handleReset_clears_everything:
  "generationData (handleReset c) =
     \<lparr>sessionId = None, productData = None, adScript = None, videoPath = None,
      progress = 0, status = Some ''idle'', error = None, currentOperation = []\<rparr>
   \<and> currentStep (handleReset c) = Input
   \<and> requests (trace (handleReset c)) = requests (trace c)"
  by (simp add: handleReset_def state_setters requests_append)

section \<open>Local precondition failures\<close>

text \<open>
  Claim C3. When \<open>sessionId\<close> is unset (or empty) at the moment the settings are
  confirmed, \<^verbatim>\<open>handleSettingsConfirm\<close> sets status \<^verbatim>\<open>error\<close> with the message
  "No session ID available. Please try again.", shows a toast and returns: the trace
  grows by that assignment and that toast only, so no request is sent and no script
  generation is attempted; the step stays where it was.
\<close>

theorem handleSettingsConfirm_without_session:
  assumes "\<not> truthy_str (sessionId (generationData c))"
  shows "status (generationData (handleSettingsConfirm cs c)) = Some ''error''
       \<and> error (generationData (handleSettingsConfirm cs c)) =
           Some ''No session ID available. Please try again.''
       \<and> trace (handleSettingsConfirm cs c) =
           trace c @
           [SetGenerationData
              ((generationData c)
                 \<lparr>status := Some ''error'',
                  error := Some ''No session ID available. Please try again.'',
                  currentOperation := ''Session error''\<rparr>),
            ShowToast ''Session error: No session ID available. Please try again.'' ''error'']
       \<and> requests (trace (handleSettingsConfirm cs c)) = requests (trace c)
       \<and> currentStep (handleSettingsConfirm cs c) = currentStep c"
  using assms by (simp add: handleSettingsConfirm_def state_setters requests_append)

text \<open>The initial state has no session: confirming there fails locally.\<close>

theorem handleSettingsConfirm_without_session_witness:
  "\<not> truthy_str (sessionId (generationData initial_component))
   \<and> status (generationData (handleSettingsConfirm (settings initial_component) initial_component))
       = Some ''error''
   \<and> error (generationData (handleSettingsConfirm (settings initial_component) initial_component))
       = Some ''No session ID available. Please try again.''
   \<and> requests (trace (handleSettingsConfirm (settings initial_component) initial_component)) = []"
proof -
  have h: "\<not> truthy_str (sessionId (generationData initial_component))"
    by (simp add: initial_component_def truthy_str_def)
  have t: "trace initial_component = []"
    by (simp add: initial_component_def)
  show ?thesis
    using h t handleSettingsConfirm_without_session [OF h, of "settings initial_component"]
    by simp
qed

text \<open>
  Claim C1, as the code has it. When \<open>sessionId\<close> is unset (or empty),
  \<^verbatim>\<open>handleDownload\<close> fails locally: it shows the toast "Download failed: No session ID
  available" and returns. No request is sent and no link is clicked, and the workflow
  state is left as it was: neither \<open>status\<close> nor \<open>error\<close> is written.
\<close>

theorem handleDownload_without_session:
  assumes "\<not> truthy_str (sessionId (generationData c))"
  shows "handleDownload c =
           c\<lparr>trace := trace c @ [ShowToast ''Download failed: No session ID available'' ''error'']\<rparr>
       \<and> generationData (handleDownload c) = generationData c
       \<and> requests (trace (handleDownload c)) = requests (trace c)"
  using assms by (simp add: handleDownload_def state_setters requests_append)

theorem handleDownload_without_session_witness:
  "\<not> truthy_str (sessionId (generationData initial_component))
   \<and> handleDownload initial_component =
       initial_component
         \<lparr>trace := [ShowToast ''Download failed: No session ID available'' ''error'']\<rparr>"
proof -
  have h: "\<not> truthy_str (sessionId (generationData initial_component))"
    by (simp add: initial_component_def truthy_str_def)
  have t: "trace initial_component = []"
    by (simp add: initial_component_def)
  show ?thesis
    using h t handleDownload_without_session [OF h] by simp
qed

text \<open>
  Claim C1, as stated, fails in the initial state, where \<open>sessionId\<close> is unset: after
  \<^verbatim>\<open>handleDownload\<close> the status is still \<^verbatim>\<open>idle\<close> and \<open>error\<close> is still unset, while
  the precondition failure of \<^verbatim>\<open>handleSettingsConfirm\<close> in the same state writes both.
\<close>

theorem handleDownload_sets_no_error_counterexample:
  "sessionId (generationData initial_component) = None
   \<and> status (generationData (handleDownload initial_component)) = Some ''idle''
   \<and> error (generationData (handleDownload initial_component)) = None
   \<and> status (generationData (handleSettingsConfirm (settings initial_component) initial_component))
       = Some ''error''
   \<and> error (generationData (handleSettingsConfirm (settings initial_component) initial_component))
       = Some ''No session ID available. Please try again.''"
  by (simp add: initial_component_def handleDownload_def handleSettingsConfirm_def
      state_setters truthy_str_def)

section \<open>Progress along a run\<close>

text \<open>
  Claim C4. In every run in which no stage fails, the progress values assigned by the
  state machine are exactly 10, 25, 35, 50, 60, 100 in this order, hence non-decreasing.
  Whatever happens to the component (a user action, a timer, a call that settles), a
  progress that was not 0 becomes 0 only by the reset, and the reset does set it to 0.
\<close>

theorem successful_run_progress:
  assumes "scrape_ok (scrapeProduct f1)" "script_ok (generateScript f2)" "video_ok (createVideo f3)"
  shows "run_progress u cs f1 f2 f3 c0 = [10, 25, 35, 50, 60, 100]
       \<and> sorted (run_progress u cs f1 f2 f3 c0)
       \<and> (\<forall>e c. progress (generationData c) \<noteq> 0 \<and> progress (generationData (fire e c)) = 0
                  \<longrightarrow> e = Reset)
       \<and> progress (generationData (handleReset c0)) = 0"
proof (intro conjI allI impI)
  show "run_progress u cs f1 f2 f3 c0 = [10, 25, 35, 50, 60, 100]"
    by (rule run_progress_successful [OF assms])
  show "sorted (run_progress u cs f1 f2 f3 c0)"
    unfolding run_progress_successful [OF assms] by (rule checkpoints_sorted)
  show "progress (generationData (handleReset c0)) = 0"
    by (simp add: handleReset_def state_setters)
next
  fix e c
  assume "progress (generationData c) \<noteq> 0 \<and> progress (generationData (fire e c)) = 0"
  then show "e = Reset"
    using progress_zero_only_by_reset [of e c] by auto
qed

text \<open>The run of the example: a scrape, a script and a video that all succeed.\<close>

theorem successful_run_progress_witness:
  "scrape_ok (scrapeProduct example_scrape) \<and> script_ok (generateScript example_script)
   \<and> video_ok (createVideo example_video)
   \<and> run_progress example_url (settings initial_component) example_scrape example_script
        example_video initial_component = [10, 25, 35, 50, 60, 100]
   \<and> progress (generationData (handleUrlSubmit example_url initial_component)) = 10
   \<and> progress (generationData (fire Reset (handleUrlSubmit example_url initial_component))) = 0"
proof -
  have h1: "scrape_ok (scrapeProduct example_scrape)"
    by (simp add: example_scrape_settled scrape_ok_def empty_json_def truthy_bool_def truthy_str_def)
  have h2: "script_ok (generateScript example_script)"
    by (simp add: example_script_settled script_ok_def empty_json_def truthy_bool_def)
  have h3: "video_ok (createVideo example_video)"
    by (simp add: example_video_settled video_ok_def empty_json_def truthy_bool_def)
  have h4: "progress (generationData (handleUrlSubmit example_url initial_component)) = 10"
    by (simp add: handleUrlSubmit_state)
  have h5: "progress (generationData (fire Reset (handleUrlSubmit example_url initial_component))) = 0"
    by (simp add: handleReset_data)
  show ?thesis
    using h1 h2 h3 h4 h5
      successful_run_progress [OF h1 h2 h3, of example_url "settings initial_component"
        initial_component, THEN conjunct1]
    by simp
qed

section \<open>Failed stages\<close>

text \<open>
  Claim C6. Whenever one of the three stages fails (the call throws, or its answer does
  not take the success branch), the continuation leaves the step as it was and the
  state shows the failure: status \<^verbatim>\<open>error\<close> and an error message that is not empty.
  In a run the step at that moment is \<open>Generating\<close>, so a run with a failed stage ends
  in the step \<open>Generating\<close> with the failure shown. In particular the create-video
  answer \<^verbatim>\<open>{success: false, error: "render failed"}\<close> gives status \<^verbatim>\<open>error\<close> with the
  error "render failed" and the step unchanged. The exceptions of the browser are taken
  to carry a message, as they do.
\<close>

theorem failed_stage_keeps_step:
  assumes "browser_ok f1" "browser_ok f2" "browser_ok f3"
  shows "(\<not> scrape_ok (scrapeProduct f1) \<longrightarrow>
            shows_failure (handleUrlSubmit_resume (scrapeProduct f1) c)
            \<and> currentStep (handleUrlSubmit_resume (scrapeProduct f1) c) = currentStep c)
       \<and> (\<not> script_ok (generateScript f2) \<longrightarrow>
            shows_failure (handleSettingsConfirm_resume (generateScript f2) c)
            \<and> currentStep (handleSettingsConfirm_resume (generateScript f2) c) = currentStep c)
       \<and> (\<not> video_ok (createVideo f3) \<longrightarrow>
            shows_failure (handleSettingsConfirm_video (createVideo f3) c)
            \<and> currentStep (handleSettingsConfirm_video (createVideo f3) c) = currentStep c)
       \<and> (\<not> (scrape_ok (scrapeProduct f1) \<and> script_ok (generateScript f2)
               \<and> video_ok (createVideo f3)) \<longrightarrow>
            currentStep (run u cs f1 f2 f3 c0) = Generating
            \<and> shows_failure (run u cs f1 f2 f3 c0))
       \<and> (success videoResult = Some False \<and> error_json videoResult = Some ''render failed'' \<longrightarrow>
            status (generationData (handleSettingsConfirm_video (Inr (Json (Some videoResult))) c))
              = Some ''error''
            \<and> error (generationData (handleSettingsConfirm_video (Inr (Json (Some videoResult))) c))
              = Some ''render failed''
            \<and> currentStep (handleSettingsConfirm_video (Inr (Json (Some videoResult))) c)
              = currentStep c)"
proof (intro conjI impI)
  assume "\<not> scrape_ok (scrapeProduct f1)"
  from scrape_failure [OF this scrapeProduct_message [OF assms(1)], of c]
  show "shows_failure (handleUrlSubmit_resume (scrapeProduct f1) c)"
    and "currentStep (handleUrlSubmit_resume (scrapeProduct f1) c) = currentStep c"
    by simp_all
next
  assume "\<not> script_ok (generateScript f2)"
  from script_failure [OF this generateScript_message [OF assms(2)], of c]
  show "shows_failure (handleSettingsConfirm_resume (generateScript f2) c)"
    and "currentStep (handleSettingsConfirm_resume (generateScript f2) c) = currentStep c"
    by simp_all
next
  assume "\<not> video_ok (createVideo f3)"
  from video_failure [OF this createVideo_message [OF assms(3)], of c]
  show "shows_failure (handleSettingsConfirm_video (createVideo f3) c)"
    and "currentStep (handleSettingsConfirm_video (createVideo f3) c) = currentStep c"
    by simp_all
next
  assume "\<not> (scrape_ok (scrapeProduct f1) \<and> script_ok (generateScript f2)
               \<and> video_ok (createVideo f3))"
  from failed_run [OF assms this, of u cs c0]
  show "currentStep (run u cs f1 f2 f3 c0) = Generating"
    and "shows_failure (run u cs f1 f2 f3 c0)"
    by simp_all
next
  assume "success videoResult = Some False \<and> error_json videoResult = Some ''render failed''"
  then have r: "success videoResult = Some False" "error_json videoResult = Some ''render failed''"
    by simp_all
  from render_failed [OF r, of c]
  show "status (generationData (handleSettingsConfirm_video (Inr (Json (Some videoResult))) c))
              = Some ''error''"
    and "error (generationData (handleSettingsConfirm_video (Inr (Json (Some videoResult))) c))
              = Some ''render failed''"
    and "currentStep (handleSettingsConfirm_video (Inr (Json (Some videoResult))) c)
              = currentStep c"
    by simp_all
qed

text \<open>
  A scrape whose connection fails, and the run of the example with the video answer
  \<^verbatim>\<open>{success: false, error: "render failed"}\<close>.
\<close>

theorem failed_stage_keeps_step_witness:
  "browser_ok load_failed \<and> browser_ok example_scrape \<and> browser_ok example_script
   \<and> browser_ok example_video_failed
   \<and> \<not> scrape_ok (scrapeProduct load_failed)
   \<and> \<not> script_ok (generateScript example_video_failed)
   \<and> \<not> video_ok (createVideo example_video_failed)
   \<and> shows_failure (handleUrlSubmit_resume (scrapeProduct load_failed)
         (handleUrlSubmit example_url initial_component))
   \<and> currentStep (handleUrlSubmit_resume (scrapeProduct load_failed)
         (handleUrlSubmit example_url initial_component)) = Generating
   \<and> currentStep (run example_url (settings initial_component) example_scrape example_script
         example_video_failed initial_component) = Generating
   \<and> shows_failure (run example_url (settings initial_component) example_scrape example_script
         example_video_failed initial_component)
   \<and> error (generationData (handleSettingsConfirm_video (createVideo example_video_failed)
         (handleUrlSubmit example_url initial_component))) = Some ''render failed''
   \<and> currentStep (handleSettingsConfirm_video (createVideo example_video_failed)
         (handleUrlSubmit example_url initial_component)) = Generating"
proof -
  have f1: "\<not> scrape_ok (scrapeProduct load_failed)"
    by (simp add: scrapeProduct_def load_failed_settled scrape_ok_def)
  have f2: "\<not> script_ok (generateScript example_video_failed)"
    using example_video_failed_settled
    by (simp add: generateScript_def createVideo_def script_ok_def empty_json_def truthy_bool_def)
  have f3: "\<not> video_ok (createVideo example_video_failed)"
    by (simp add: example_video_failed_settled video_ok_def empty_json_def truthy_bool_def)
  have body: "success (empty_json\<lparr>success := Some False, error_json := Some ''render failed''\<rparr>)
                = Some False
              \<and> error_json (empty_json\<lparr>success := Some False, error_json := Some ''render failed''\<rparr>)
                = Some ''render failed''"
    by simp
  have step: "currentStep (handleUrlSubmit example_url initial_component) = Generating"
    by (simp add: handleUrlSubmit_state)
  note first = failed_stage_keeps_step [OF example_browser_ok(4) example_browser_ok(3)
      example_browser_ok(3), of "handleUrlSubmit example_url initial_component"
      example_url "settings initial_component" initial_component
      "empty_json\<lparr>success := Some False, error_json := Some ''render failed''\<rparr>"]
  note second = failed_stage_keeps_step [OF example_browser_ok(1) example_browser_ok(2)
      example_browser_ok(3), of "handleUrlSubmit example_url initial_component"
      example_url "settings initial_component" initial_component
      "empty_json\<lparr>success := Some False, error_json := Some ''render failed''\<rparr>"]
  show ?thesis
    using f1 f2 f3 body step example_browser_ok first second
    by (simp add: example_video_failed_settled)
qed

section \<open>A scrape answer without a session identifier\<close>

text \<open>
  Claim C5. When the scrape call comes back with a JSON body that reports success but
  has no session identifier (\<^verbatim>\<open>session_id\<close> missing or empty), the workflow treats it
  as a failed request: the status becomes \<^verbatim>\<open>error\<close>, never \<^verbatim>\<open>scraped\<close>, and the error
  message is not empty ("Backend did not return a session ID" from the API layer, or,
  when the body has a camel-case \<^verbatim>\<open>sessionId\<close> only, the body's error or the handler's
  fallback). No session is stored, the progress and the step stay as they were, and no
  timer towards the settings step is started.
\<close>

theorem scrape_without_session_id_fails:
  assumes "apiRequest f = Inr (Json (Some body))"
    and "truthy_bool (success body)"
    and "\<not> truthy_str (session_id body)"
  shows "shows_failure (handleUrlSubmit_resume (scrapeProduct f) c)
       \<and> status (generationData (handleUrlSubmit_resume (scrapeProduct f) c)) \<noteq> Some ''scraped''
       \<and> error (generationData (handleUrlSubmit_resume (scrapeProduct f) c)) =
           Some (if truthy_str (sessionId_json body)
                 then or_str (error_json body) ''Failed to scrape product data - no session ID returned''
                 else ''Backend did not return a session ID'')
       \<and> sessionId (generationData (handleUrlSubmit_resume (scrapeProduct f) c)) =
           sessionId (generationData c)
       \<and> progress (generationData (handleUrlSubmit_resume (scrapeProduct f) c)) =
           progress (generationData c)
       \<and> currentStep (handleUrlSubmit_resume (scrapeProduct f) c) = currentStep c
       \<and> trace (handleUrlSubmit_resume (scrapeProduct f) c) =
           trace c @
           [SetGenerationData (generationData (handleUrlSubmit_resume (scrapeProduct f) c)),
            ShowToast (''Scraping failed: '' @
              (if truthy_str (sessionId_json body)
               then or_str (error_json body) ''Failed to scrape product data - no session ID returned''
               else ''Backend did not return a session ID'')) ''error'']"
proof (cases "truthy_str (sessionId_json body)")
  case True
  then have "scrapeProduct f = Inr (Json (Some body))"
    using assms by (simp add: scrapeProduct_def)
  then show ?thesis
    using assms True
    by (simp add: handleUrlSubmit_resume_def handleUrlSubmit_catch_def state_setters
        shows_failure_def or_str_nonempty)
next
  case False
  then have "scrapeProduct f = Inl (Error ''Backend did not return a session ID'')"
    using assms by (simp add: scrapeProduct_def)
  then show ?thesis
    using assms False
    by (simp add: handleUrlSubmit_resume_def handleUrlSubmit_catch_def state_setters
        shows_failure_def)
qed

text \<open>The answer \<^verbatim>\<open>{success: true}\<close> to the scrape of the example URL.\<close>

theorem scrape_without_session_id_fails_witness:
  "apiRequest example_scrape_no_session = Inr (Json (Some (empty_json\<lparr>success := Some True\<rparr>)))
   \<and> truthy_bool (success (empty_json\<lparr>success := Some True\<rparr>))
   \<and> \<not> truthy_str (session_id (empty_json\<lparr>success := Some True\<rparr>))
   \<and> status (generationData (handleUrlSubmit_resume (scrapeProduct example_scrape_no_session)
         (handleUrlSubmit example_url initial_component))) = Some ''error''
   \<and> error (generationData (handleUrlSubmit_resume (scrapeProduct example_scrape_no_session)
         (handleUrlSubmit example_url initial_component))) =
       Some ''Backend did not return a session ID''
   \<and> sessionId (generationData (handleUrlSubmit_resume (scrapeProduct example_scrape_no_session)
         (handleUrlSubmit example_url initial_component))) = None
   \<and> currentStep (handleUrlSubmit_resume (scrapeProduct example_scrape_no_session)
         (handleUrlSubmit example_url initial_component)) = Generating"
proof -
  have h2: "truthy_bool (success (empty_json\<lparr>success := Some True\<rparr>))"
    by (simp add: truthy_bool_def)
  have h3: "\<not> truthy_str (session_id (empty_json\<lparr>success := Some True\<rparr>))"
    by (simp add: truthy_str_def empty_json_def)
  have h4: "\<not> truthy_str (sessionId_json (empty_json\<lparr>success := Some True\<rparr>))"
    by (simp add: truthy_str_def empty_json_def)
  show ?thesis
    using h2 h3 h4 example_scrape_no_session_settled handleUrlSubmit_state [of example_url initial_component]
      scrape_without_session_id_fails [OF example_scrape_no_session_settled h2 h3,
        of "handleUrlSubmit example_url initial_component"]
    by (simp add: shows_failure_def)
qed

section \<open>Network failures\<close>

text \<open>
  Claim C8, as the code has it. When \<^verbatim>\<open>fetch\<close> rejects with a TypeError whose message
  contains "fetch", \<^verbatim>\<open>apiRequest\<close> throws an Error with the fixed message "Unable to
  connect to the backend. Please make sure the server is running on port 8000.", and
  each stage of the workflow then ends with exactly this message, which contains
  "backend", as its error. What is thrown is a plain Error, as it is for a request that
  failed with a readable body: the message alone tells the two apart.
\<close>

theorem apiRequest_connection_hint:
  assumes "name e = ''TypeError''" and "str_includes (message e) ''fetch''"
  shows "apiRequest (Rejected e) =
           Inl \<lparr>name = ''Error'',
                message = ''Unable to connect to the backend. Please make sure the server is running on port 8000.''\<rparr>
       \<and> str_includes ''Unable to connect to the backend. Please make sure the server is running on port 8000.'' ''backend''
       \<and> status (generationData (handleUrlSubmit_resume (scrapeProduct (Rejected e)) c)) = Some ''error''
       \<and> error (generationData (handleUrlSubmit_resume (scrapeProduct (Rejected e)) c)) =
           Some ''Unable to connect to the backend. Please make sure the server is running on port 8000.''
       \<and> error (generationData (handleSettingsConfirm_resume (generateScript (Rejected e)) c)) =
           Some ''Unable to connect to the backend. Please make sure the server is running on port 8000.''
       \<and> error (generationData (handleSettingsConfirm_video (createVideo (Rejected e)) c)) =
           Some ''Unable to connect to the backend. Please make sure the server is running on port 8000.''
       \<and> (\<not> ok r \<and> body_text r = Inr errorText \<longrightarrow>
            (\<exists>m. apiRequest (Responded r) = Inl \<lparr>name = ''Error'', message = m\<rparr>))"
proof -
  have a: "apiRequest (Rejected e) =
             Inl (Error ''Unable to connect to the backend. Please make sure the server is running on port 8000.'')"
    using assms by (simp add: apiRequest_def apiRequest_try_def apiRequest_catch_def)
  have b: "str_includes ''Unable to connect to the backend. Please make sure the server is running on port 8000.'' ''backend''"
    by simp
  have c: "\<not> ok r \<and> body_text r = Inr errorText \<longrightarrow>
            (\<exists>m. apiRequest (Responded r) = Inl \<lparr>name = ''Error'', message = m\<rparr>)"
    using request_failure_is_plain_Error [of r errorText] by blast
  have d: "status (generationData (handleUrlSubmit_resume (scrapeProduct (Rejected e)) c)) = Some ''error''
       \<and> error (generationData (handleUrlSubmit_resume (scrapeProduct (Rejected e)) c)) =
           Some ''Unable to connect to the backend. Please make sure the server is running on port 8000.''
       \<and> error (generationData (handleSettingsConfirm_resume (generateScript (Rejected e)) c)) =
           Some ''Unable to connect to the backend. Please make sure the server is running on port 8000.''
       \<and> error (generationData (handleSettingsConfirm_video (createVideo (Rejected e)) c)) =
           Some ''Unable to connect to the backend. Please make sure the server is running on port 8000.''"
    using a
    by (simp add: scrapeProduct_def generateScript_def createVideo_def handleUrlSubmit_resume_def
        handleSettingsConfirm_resume_def handleSettingsConfirm_video_def
        handleUrlSubmit_catch_frame handleSettingsConfirm_catch_frame createVideo_catch_frame)
  show ?thesis
    using a b c d by (simp add: Error_def)
qed

text \<open>
  Chromium's rejection of a refused connection, "Failed to fetch", and a 503 as the
  failed request.
\<close>

theorem apiRequest_connection_hint_witness:
  "name \<lparr>name = ''TypeError'', message = ''Failed to fetch''\<rparr> = ''TypeError''
   \<and> str_includes (message \<lparr>name = ''TypeError'', message = ''Failed to fetch''\<rparr>) ''fetch''
   \<and> \<not> ok unavailable_response
   \<and> body_text unavailable_response =
       Inr ''Unable to connect to the backend. Please make sure the server is running on port 8000.''
   \<and> apiRequest (Responded unavailable_response) =
       Inl \<lparr>name = ''Error'',
            message = ''Unable to connect to the backend. Please make sure the server is running on port 8000.''\<rparr>
   \<and> apiRequest failed_to_fetch =
       Inl \<lparr>name = ''Error'',
            message = ''Unable to connect to the backend. Please make sure the server is running on port 8000.''\<rparr>
   \<and> error (generationData (handleUrlSubmit_resume (scrapeProduct failed_to_fetch)
         (handleUrlSubmit example_url initial_component))) =
       Some ''Unable to connect to the backend. Please make sure the server is running on port 8000.''"
proof -
  have h1: "name \<lparr>name = ''TypeError'', message = ''Failed to fetch''\<rparr> = ''TypeError''"
    by simp
  have h2: "str_includes (message \<lparr>name = ''TypeError'', message = ''Failed to fetch''\<rparr>) ''fetch''"
    by simp
  have h3: "\<not> ok unavailable_response"
    by (simp add: unavailable_response_def)
  have h4: "body_text unavailable_response =
       Inr ''Unable to connect to the backend. Please make sure the server is running on port 8000.''"
    by (simp add: unavailable_response_def)
  from apiRequest_connection_hint [OF h1 h2, of "handleUrlSubmit example_url initial_component"
        unavailable_response
        "''Unable to connect to the backend. Please make sure the server is running on port 8000.''"]
  have all: "apiRequest failed_to_fetch =
       Inl \<lparr>name = ''Error'',
            message = ''Unable to connect to the backend. Please make sure the server is running on port 8000.''\<rparr>
     \<and> error (generationData (handleUrlSubmit_resume (scrapeProduct failed_to_fetch)
         (handleUrlSubmit example_url initial_component))) =
       Some ''Unable to connect to the backend. Please make sure the server is running on port 8000.''
     \<and> (\<exists>m. apiRequest (Responded unavailable_response) = Inl \<lparr>name = ''Error'', message = m\<rparr>)"
    using h3 h4 by (simp add: failed_to_fetch_def)
  then show ?thesis
    using h1 h2 h3 h4 unavailable_settled by simp
qed

text \<open>
  Claim C8, as stated, fails for a refused connection in WebKit: \<^verbatim>\<open>fetch\<close> rejects with
  the TypeError "Load failed", whose message does not contain "fetch"; \<^verbatim>\<open>apiRequest\<close>
  throws it on unchanged, and the workflow error is "Load failed", without "backend".
  And a failed request can throw the very error a failed connection throws: a 503 whose
  body is the hint's sentence does.
\<close>

theorem load_failed_counterexample:
  "apiRequest load_failed = Inl \<lparr>name = ''TypeError'', message = ''Load failed''\<rparr>
   \<and> \<not> str_includes ''Load failed'' ''backend''
   \<and> status (generationData (handleUrlSubmit_resume (scrapeProduct load_failed)
         (handleUrlSubmit example_url initial_component))) = Some ''error''
   \<and> error (generationData (handleUrlSubmit_resume (scrapeProduct load_failed)
         (handleUrlSubmit example_url initial_component))) = Some ''Load failed''
   \<and> apiRequest (Responded unavailable_response) = apiRequest failed_to_fetch"
  by (simp add: load_failed_settled scrapeProduct_def handleUrlSubmit_resume_def
      handleUrlSubmit_catch_frame unavailable_settled failed_to_fetch_settled Error_def)

section \<open>A response that arrives after a reset\<close>

text \<open>
  The reset clears the local state at once and signals nothing to the backend or to the
  continuations that wait. Whatever the state was and whatever the answer is, a
  continuation that runs after the reset applies its update to the state the reset left:
  the status leaves \<^verbatim>\<open>idle\<close>.
\<close>

lemma late_response_changes_reset_state:
  "status (generationData (handleUrlSubmit_resume s1 (handleReset c))) =
     Some (if scrape_ok s1 then ''scraped'' else ''error'')
   \<and> progress (generationData (handleUrlSubmit_resume s1 (handleReset c))) =
     (if scrape_ok s1 then 25 else 0)
   \<and> status (generationData (handleSettingsConfirm_resume s2 (handleReset c))) =
     Some (if script_ok s2 then ''script_generated'' else ''error'')
   \<and> progress (generationData (handleSettingsConfirm_resume s2 (handleReset c))) =
     (if script_ok s2 then 50 else 0)
   \<and> status (generationData (handleSettingsConfirm_video s3 (handleReset c))) =
     Some (if video_ok s3 then ''completed'' else ''error'')
   \<and> progress (generationData (handleSettingsConfirm_video s3 (handleReset c))) =
     (if video_ok s3 then 100 else 0)
   \<and> generationData (handleUrlSubmit_resume s1 (handleReset c)) \<noteq> generationData (handleReset c)
   \<and> generationData (handleSettingsConfirm_resume s2 (handleReset c)) \<noteq> generationData (handleReset c)
   \<and> generationData (handleSettingsConfirm_video s3 (handleReset c)) \<noteq> generationData (handleReset c)"
proof -
  have idle: "status (generationData (handleReset c)) = Some ''idle''"
    and zero: "progress (generationData (handleReset c)) = 0"
    by (simp_all add: handleReset_data)
  have n1: "generationData (handleUrlSubmit_resume s1 (handleReset c)) \<noteq> generationData (handleReset c)"
  proof
    assume "generationData (handleUrlSubmit_resume s1 (handleReset c)) = generationData (handleReset c)"
    then have "status (generationData (handleUrlSubmit_resume s1 (handleReset c))) = Some ''idle''"
      using idle by simp
    then show False by (simp add: late_scrape_status split: if_splits)
  qed
  have n2: "generationData (handleSettingsConfirm_resume s2 (handleReset c)) \<noteq> generationData (handleReset c)"
  proof
    assume "generationData (handleSettingsConfirm_resume s2 (handleReset c)) = generationData (handleReset c)"
    then have "status (generationData (handleSettingsConfirm_resume s2 (handleReset c))) = Some ''idle''"
      using idle by simp
    then show False by (simp add: late_script_status split: if_splits)
  qed
  have n3: "generationData (handleSettingsConfirm_video s3 (handleReset c)) \<noteq> generationData (handleReset c)"
  proof
    assume "generationData (handleSettingsConfirm_video s3 (handleReset c)) = generationData (handleReset c)"
    then have "status (generationData (handleSettingsConfirm_video s3 (handleReset c))) = Some ''idle''"
      using idle by simp
    then show False by (simp add: late_video_status split: if_splits)
  qed
  show ?thesis
    using n1 n2 n3 zero
    by (simp add: late_scrape_status late_script_status late_video_status)
qed

text \<open>
  Claim C2 says that a response which arrives after a reset is ignored: the status stays
  \<^verbatim>\<open>idle\<close>, the progress 0 and the session fields cleared. The code does otherwise.
  The user submits the example URL and, while the scrape is in flight, cancels (the
  progress view binds its "Cancel Generation" button to \<^verbatim>\<open>handleReset\<close>): the status is
  \<^verbatim>\<open>idle\<close>, the progress 0, the session cleared, the step \<open>Input\<close>. Then the scrape
  answers with success: the status becomes \<^verbatim>\<open>scraped\<close>, the progress 25, the session
  identifier and the product data are stored, and the timer then opens the settings
  step.
\<close>

theorem late_scrape_after_reset:
  "status (generationData reset_in_flight) = Some ''idle''
   \<and> progress (generationData reset_in_flight) = 0
   \<and> sessionId (generationData reset_in_flight) = None
   \<and> productData (generationData reset_in_flight) = None
   \<and> currentStep reset_in_flight = Input
   \<and> status (generationData late_scrape) = Some ''scraped''
   \<and> progress (generationData late_scrape) = 25
   \<and> sessionId (generationData late_scrape) = Some ''abc''
   \<and> productData (generationData late_scrape) = Some [(''title'', ''Widget'')]
   \<and> currentStep (handleUrlSubmit_timer late_scrape) = Settings"
  by (simp add: reset_in_flight_def late_scrape_def handleReset_data example_scrape_settled
      handleUrlSubmit_resume_def handleUrlSubmit_timer_def handleReset_def empty_json_def
      truthy_bool_def truthy_str_def state_setters)

section \<open>The create-video payload\<close>

text \<open>
  Claim C9. For every settings object the settings form can produce (each of the seven
  fields one of its enumerated values) and every session identifier, \<^verbatim>\<open>createVideo\<close>
  builds a payload from which the stub backend reads the same settings object back, and
  the three booleans travel as the literal strings "true" and "false".
\<close>

theorem createVideo_form_roundtrip:
  assumes "legal_settings s" and "truthy_str sid"
  shows "\<exists>body. createVideo_form sid s = Inr body
           \<and> stub_backend_parse body = s
           \<and> map_of body ''enable_karaoke'' =
               Some (if enableKaraoke s = Some True then ''true'' else ''false'')
           \<and> map_of body ''include_voiceover'' =
               Some (if includeVoiceover s = Some True then ''true'' else ''false'')
           \<and> map_of body ''include_music'' =
               Some (if includeMusic s = Some True then ''true'' else ''false'')"
proof -
  note filled = legal_settings_filled [OF assms(1)]
  let ?body = "[(''session_id'', or_str sid []),
                (''aspect_ratio'', or_str (aspectRatio s) ''16:9''),
                (''template'', or_str (template s) ''modern''),
                (''voice_tone'', or_str (voiceTone s) ''professional''),
                (''enable_karaoke'', if truthy_bool (enableKaraoke s) then ''true'' else ''false''),
                (''include_voiceover'', if truthy_bool (includeVoiceover s) then ''true'' else ''false''),
                (''background_music'', or_str (backgroundMusic s) ''corporate''),
                (''include_music'', if truthy_bool (includeMusic s) then ''true'' else ''false'')]"
  have form: "createVideo_form sid s = Inr ?body"
    using assms(2) by (simp add: createVideo_form_def)
  have parse: "stub_backend_parse ?body = s"
    using filled
    by (simp add: stub_backend_parse_def or_str_truthy parse_boolean_literal)
  have k: "map_of ?body ''enable_karaoke'' =
             Some (if enableKaraoke s = Some True then ''true'' else ''false'')"
    by (simp add: truthy_bool_literal)
  have vo: "map_of ?body ''include_voiceover'' =
             Some (if includeVoiceover s = Some True then ''true'' else ''false'')"
    by (simp add: truthy_bool_literal)
  have m: "map_of ?body ''include_music'' =
             Some (if includeMusic s = Some True then ''true'' else ''false'')"
    by (simp add: truthy_bool_literal)
  show ?thesis
    using form parse k vo m by blast
qed

text \<open>The payload of one choice of the form, written out, and what the stub reads from it.\<close>

theorem createVideo_form_roundtrip_witness:
  "legal_settings example_settings \<and> truthy_str (Some ''abc'')
   \<and> createVideo_form (Some ''abc'') example_settings =
       Inr [(''session_id'', ''abc''), (''aspect_ratio'', ''9:16''), (''template'', ''dynamic''),
            (''voice_tone'', ''exciting''), (''enable_karaoke'', ''false''),
            (''include_voiceover'', ''true''), (''background_music'', ''relaxed''),
            (''include_music'', ''false'')]
   \<and> stub_backend_parse
         [(''session_id'', ''abc''), (''aspect_ratio'', ''9:16''), (''template'', ''dynamic''),
          (''voice_tone'', ''exciting''), (''enable_karaoke'', ''false''),
          (''include_voiceover'', ''true''), (''background_music'', ''relaxed''),
          (''include_music'', ''false'')] = example_settings"
proof -
  have h1: "legal_settings example_settings"
    by (simp add: legal_settings_def example_settings_def)
  have h2: "truthy_str (Some ''abc'')"
    by (simp add: truthy_str_def)
  have "\<exists>body. createVideo_form (Some ''abc'') example_settings = Inr body
          \<and> stub_backend_parse body = example_settings"
    using createVideo_form_roundtrip [OF h1 h2] by blast
  then show ?thesis
    using h1 h2 by (simp add: example_settings_form)
qed

text \<open>
  Claim C10. For every settings object, whenever \<^verbatim>\<open>createVideo\<close> sends a payload (the
  session identifier is truthy), the payload has the eight fields \<^verbatim>\<open>session_id\<close>,
  \<^verbatim>\<open>aspect_ratio\<close>, \<^verbatim>\<open>template\<close>, \<^verbatim>\<open>voice_tone\<close>, \<^verbatim>\<open>enable_karaoke\<close>,
  \<^verbatim>\<open>include_voiceover\<close>, \<^verbatim>\<open>background_music\<close> and \<^verbatim>\<open>include_music\<close>, each with a value
  that is not empty. A non-boolean field that is missing or falsy is sent as its default
  ("16:9", "modern", "professional", "corporate"); one that is truthy is sent as it is.
\<close>

theorem createVideo_form_defaults:
  assumes "truthy_str sid"
  shows "\<exists>body. createVideo_form sid s = Inr body
           \<and> map fst body =
               [''session_id'', ''aspect_ratio'', ''template'', ''voice_tone'', ''enable_karaoke'',
                ''include_voiceover'', ''background_music'', ''include_music'']
           \<and> list_all (\<lambda>(k, v). v \<noteq> []) body
           \<and> (\<not> truthy_str (aspectRatio s) \<longrightarrow> map_of body ''aspect_ratio'' = Some ''16:9'')
           \<and> (\<not> truthy_str (template s) \<longrightarrow> map_of body ''template'' = Some ''modern'')
           \<and> (\<not> truthy_str (voiceTone s) \<longrightarrow> map_of body ''voice_tone'' = Some ''professional'')
           \<and> (\<not> truthy_str (backgroundMusic s) \<longrightarrow>
                map_of body ''background_music'' = Some ''corporate'')
           \<and> (truthy_str (aspectRatio s) \<longrightarrow> map_of body ''aspect_ratio'' = aspectRatio s)
           \<and> (truthy_str (template s) \<longrightarrow> map_of body ''template'' = template s)
           \<and> (truthy_str (voiceTone s) \<longrightarrow> map_of body ''voice_tone'' = voiceTone s)
           \<and> (truthy_str (backgroundMusic s) \<longrightarrow>
                map_of body ''background_music'' = backgroundMusic s)"
proof -
  have falsy: "\<And>v d. \<not> truthy_str v \<Longrightarrow> or_str v d = d"
    by (auto simp: truthy_str_def or_str_def split: option.splits)
  have sid: "or_str sid [] \<noteq> []"
    using assms by (auto simp: truthy_str_def or_str_def split: option.splits)
  show ?thesis
    using assms sid
    by (simp add: createVideo_form_def or_str_nonempty or_str_truthy falsy)
qed

text \<open>The payload for a settings object with every field left out: the defaults.\<close>

theorem createVideo_form_defaults_witness:
  "truthy_str (Some ''abc'')
   \<and> truthy_str (aspectRatio example_settings) \<and> truthy_str (template example_settings)
   \<and> truthy_str (voiceTone example_settings) \<and> truthy_str (backgroundMusic example_settings)
   \<and> createVideo_form (Some ''abc'') example_settings =
       Inr [(''session_id'', ''abc''), (''aspect_ratio'', ''9:16''), (''template'', ''dynamic''),
            (''voice_tone'', ''exciting''), (''enable_karaoke'', ''false''),
            (''include_voiceover'', ''true''), (''background_music'', ''relaxed''),
            (''include_music'', ''false'')]
   \<and> \<not> truthy_str (aspectRatio no_settings) \<and> \<not> truthy_str (template no_settings)
   \<and> \<not> truthy_str (voiceTone no_settings) \<and> \<not> truthy_str (backgroundMusic no_settings)
   \<and> createVideo_form (Some ''abc'') no_settings =
       Inr [(''session_id'', ''abc''), (''aspect_ratio'', ''16:9''), (''template'', ''modern''),
            (''voice_tone'', ''professional''), (''enable_karaoke'', ''false''),
            (''include_voiceover'', ''false''), (''background_music'', ''corporate''),
            (''include_music'', ''false'')]
   \<and> list_all (\<lambda>(k, v). v \<noteq> [])
         [(''session_id'', ''abc''), (''aspect_ratio'', ''16:9''), (''template'', ''modern''),
          (''voice_tone'', ''professional''), (''enable_karaoke'', ''false''),
          (''include_voiceover'', ''false''), (''background_music'', ''corporate''),
          (''include_music'', ''false'')]"
proof -
  have h: "truthy_str (Some ''abc'')"
    by (simp add: truthy_str_def)
  have n: "\<not> truthy_str (aspectRatio no_settings)" "\<not> truthy_str (template no_settings)"
    "\<not> truthy_str (voiceTone no_settings)" "\<not> truthy_str (backgroundMusic no_settings)"
    by (simp_all add: truthy_str_def no_settings_def)
  have form: "createVideo_form (Some ''abc'') no_settings =
       Inr [(''session_id'', ''abc''), (''aspect_ratio'', ''16:9''), (''template'', ''modern''),
            (''voice_tone'', ''professional''), (''enable_karaoke'', ''false''),
            (''include_voiceover'', ''false''), (''background_music'', ''corporate''),
            (''include_music'', ''false'')]"
    by (simp add: createVideo_form_def no_settings_def truthy_str_def truthy_bool_def or_str_def)
  have "\<exists>body. createVideo_form (Some ''abc'') no_settings = Inr body
          \<and> list_all (\<lambda>(k, v). v \<noteq> []) body"
    using createVideo_form_defaults [OF h, of no_settings] by blast
  moreover have "truthy_str (aspectRatio example_settings)" "truthy_str (template example_settings)"
    "truthy_str (voiceTone example_settings)" "truthy_str (backgroundMusic example_settings)"
    by (simp_all add: truthy_str_def example_settings_def)
  ultimately show ?thesis
    using h n by (simp add: form example_settings_form)
qed

end
